theory Spec2Isabelle
  imports Main "HOL-Library.Monad_Syntax"
begin

section \<open>The IR program (frontend/codegen.cc, the IR it builds)\<close>

text \<open>
  Pointers of the C++ code are modelled by addresses (natural numbers) into explicit
  stores: \<open>IRBB*\<close> is an address of the basic-block store, \<open>IRStmt*\<close> an address of the
  statement store, \<open>IRTimeVar*\<close> an address of the timing-variable store. A null pointer
  is \<open>None\<close>. Every function that dereferences a pointer returns an \<open>option\<close>:
  \<open>None\<close> stands for the undefined behaviour of dereferencing a null or dangling
  pointer (or a failed \<open>assert\<close>).
\<close>

datatype IRStmtType =
    IRStmtExpr | IRStmtPhi | IRStmtIf | IRStmtJmp
  | IRStmtPortRead | IRStmtPortWrite | IRStmtPortExport
  | IRStmtChanRead | IRStmtChanWrite
  | IRStmtRegRead | IRStmtRegWrite
  | IRStmtArraySize | IRStmtArrayRead | IRStmtArrayWrite
  | IRStmtBypassStart | IRStmtBypassEnd | IRStmtBypassWrite
  | IRStmtBypassPresent | IRStmtBypassReady | IRStmtBypassRead
  | IRStmtKill | IRStmtKillIf | IRStmtKillYounger
  | IRStmtSpawn | IRStmtTimingBarrier | IRStmtDone

datatype IRStmtOp =
    IRStmtOpNone | IRStmtOpConst
  | IRStmtOpAdd | IRStmtOpSub | IRStmtOpMul | IRStmtOpDiv | IRStmtOpRem
  | IRStmtOpAnd | IRStmtOpOr | IRStmtOpNot | IRStmtOpXor
  | IRStmtOpLsh | IRStmtOpRsh | IRStmtOpSelect | IRStmtOpBitslice | IRStmtOpConcat
  | IRStmtOpCmpEQ | IRStmtOpCmpNE | IRStmtOpCmpLE | IRStmtOpCmpLT
  | IRStmtOpCmpGE | IRStmtOpCmpGT

record IRStmt =
  valnum :: int
  type :: IRStmtType
  op :: IRStmtOp
  width :: int
  args :: "nat list"
  arg_nums :: "int list"
  targets :: "nat list"
  target_names :: "string list"
  "constant" :: int
  has_constant :: bool
  port_name :: string
  timevar :: "nat option"
  time_offset :: int
  port_default :: int
  port_has_default :: bool

text \<open>
  Modelled from the spec: the constructor \<open>IRStmt()\<close> is declared in the IR header, which
  is not part of the sources. Section 3.3 lists the fields; a fresh statement has no
  arguments, no targets, no constant, no port name and no timing variable. The kind and
  the numeric fields of a fresh statement are taken as \<open>IRStmtExpr\<close> and \<open>0\<close>; every
  handler below overwrites the fields it relies on.
\<close>

definition new_IRStmt :: IRStmt where
  "new_IRStmt = \<lparr> valnum = 0, type = IRStmtExpr, op = IRStmtOpNone, width = 0,
     args = [], arg_nums = [], targets = [], target_names = [],
     constant = 0, has_constant = False, port_name = [],
     timevar = None, time_offset = 0, port_default = 0, port_has_default = False \<rparr>"

record IRBB =
  label :: string
  is_entry :: bool
  stmts :: "nat list"

definition new_IRBB :: IRBB where
  "new_IRBB = \<lparr> label = [], is_entry = False, stmts = [] \<rparr>"

record IRTimeVar =
  tv_name :: string
  uses :: "nat list"

section \<open>The AST as the lowering reads it\<close>

text \<open>
  The AST headers are not part of the sources; the node types below carry the fields
  that codegen.cc reads. An expression node has an identity (\<open>const ASTExpr*\<close> is a key
  of the expression-to-IR map and a value of the binding environment): \<open>SrcExpr n\<close> for
  a node of the parsed tree, \<open>IRExpr n\<close> for the \<open>n\<close>-th placeholder node that the
  lowering itself appends to \<open>ast->ir_exprs\<close>. A let statement is identified by a
  number (\<open>ASTStmtLet*\<close>).
\<close>

datatype Op =
    ADD | SUB | MUL | DIV | REM | AND | OR | NOT | XOR | LSH | RSH
  | SEL | BITSLICE | CONCAT | EQ | NE | LE | LT | GE | GT
  | CONST_E | VAR | PORTDEF | PORTREAD
  | ARRAY_INIT | ARRAY_REF | REG_INIT | REG_REF
  | BYPASSDEF | BYPASSPRESENT | BYPASSREADY | BYPASSREAD
  | STMTBLOCK | CAST | FIELD_REF | AGGLITERAL | NOP

text \<open>\<open>CONST_E\<close> is \<open>ASTExpr::CONST\<close>.\<close>

datatype expr_id = SrcExpr nat | IRExpr nat

record ASTTypeInfo =
  t_width :: int
  is_port :: bool
  is_chan :: bool
  array_size :: int

definition new_ASTTypeInfo :: ASTTypeInfo where
  "new_ASTTypeInfo = \<lparr> t_width = 0, is_port = False, is_chan = False, array_size = 0 \<rparr>"

datatype ASTExpr =
  ASTExpr (eid: expr_id) (e_op: Op) (ops: "ASTExpr list") (ident: "string option")
    (e_constant: int) (e_has_constant: bool) (inferred_type: ASTTypeInfo)
    (def: "nat option") (e_stmt: "ASTStmt list option")
and ASTStmt =
    ASTStmtBlock "ASTStmt list"
  | ASTStmtLet nat ASTExpr
  | ASTStmtAssign ASTExpr ASTExpr
  | ASTStmtIf ASTExpr ASTStmt "ASTStmt option"
  | ASTStmtWhile "string option" ASTExpr ASTStmt
  | ASTStmtBreak "string option"
  | ASTStmtContinue "string option"
  | ASTStmtWrite ASTExpr ASTExpr
  | ASTStmtSpawn ASTStmt
  | ASTStmtKill
  | ASTStmtKillYounger
  | ASTStmtKillIf ASTExpr
  | ASTStmtTiming ASTStmt
  | ASTStmtStage int
  | ASTStmtExpr ASTExpr
  | ASTStmtNestedFunc "ASTStmt list"
  | ASTStmtOnKillYounger "ASTStmt list"
  | ASTStmtBypassStart ASTExpr ASTExpr
  | ASTStmtBypassEnd ASTExpr
  | ASTStmtBypassWrite ASTExpr ASTExpr

record ASTFunctionDef =
  fd_name :: string
  fd_is_entry :: bool
  fd_block :: "ASTStmt list"

section \<open>Ordered maps keyed by pointers\<close>

text \<open>
  A \<open>std::map\<close> keyed by a pointer iterates in ascending key order. It is modelled as
  an association list kept sorted by key; \<open>map_set\<close> is the assignment
  \<open>m[k] = v\<close>, \<open>map_insert\<close> is \<open>m.insert(make_pair(k, v))\<close>, which leaves an
  existing entry alone.
\<close>

fun map_set :: "nat \<Rightarrow> 'v \<Rightarrow> (nat \<times> 'v) list \<Rightarrow> (nat \<times> 'v) list" where
  "map_set k v [] = [(k, v)]"
| "map_set k v ((k', v') # m) =
     (if k < k' then (k, v) # (k', v') # m
      else if k = k' then (k, v) # m
      else (k', v') # map_set k v m)"

fun map_insert :: "nat \<Rightarrow> 'v \<Rightarrow> (nat \<times> 'v) list \<Rightarrow> (nat \<times> 'v) list" where
  "map_insert k v [] = [(k, v)]"
| "map_insert k v ((k', v') # m) =
     (if k < k' then (k, v) # (k', v') # m
      else if k = k' then (k', v') # m
      else (k', v') # map_insert k v m)"

fun set_insert :: "nat \<Rightarrow> nat list \<Rightarrow> nat list" where
  "set_insert k [] = [k]"
| "set_insert k (k' # m) =
     (if k < k' then k # k' # m
      else if k = k' then k' # m
      else k' # set_insert k m)"

section \<open>The lowering state\<close>

type_synonym SubBindingMap = "(nat \<times> ASTExpr) list"

record LoopFrame =
  while_label :: "string option"
  overlay_depth :: nat
  header :: "nat option"
  footer :: "nat option"
  in_bb :: "nat option"
  continue_edges :: "(nat \<times> SubBindingMap) list"
  break_edges :: "(nat \<times> SubBindingMap) list"

definition new_LoopFrame :: LoopFrame where
  "new_LoopFrame = \<lparr> while_label = None, overlay_depth = 0, header = None, footer = None,
     in_bb = None, continue_edges = [], break_edges = [] \<rparr>"

record FuncFrame =
  timing_stack :: "nat list"
  timing_last_stage :: "int list"
  loop_frames :: "LoopFrame list"
  onkillyoungers :: "ASTStmt list list"
  last_curbb :: "nat option"

definition new_FuncFrame :: FuncFrame where
  "new_FuncFrame = \<lparr> timing_stack = [], timing_last_stage = [], loop_frames = [],
     onkillyoungers = [], last_curbb = None \<rparr>"

text \<open>
  One record holds what the C++ code spreads over \<open>CodeGenPass\<close> (the function frames
  \<open>c_frames\<close>, the error collector), \<open>CodeGenContext\<close> (\<open>gensym\<close>, \<open>curbb\<close>,
  \<open>expr_to_ir_map\<close>, the binding environment), \<open>IRProgram\<close> (\<open>bbs\<close>, \<open>entries\<close>,
  \<open>next_valnum\<close>, \<open>timevars\<close>, \<open>timevar_map\<close>, \<open>timing_model\<close>), the three object
  stores, the two parts of the AST that the lowering writes: the placeholder
  expressions \<open>ir_exprs\<close> (only their number matters) and the names it stores into
  \<open>node->ident\<close>, and the one annotation it reads through an \<open>ASTStmtLet*\<close>, the
  inferred type of the let.
\<close>

record cg_state =
  bbs :: "nat list"
  entries :: "nat list"
  next_valnum :: int
  timevars :: "nat list"
  timevar_map :: "(string \<times> nat) list"
  timing_model :: string
  crosslinked_args_bbs :: bool
  bb_store :: "nat \<Rightarrow> IRBB option"
  bb_alloc :: nat
  stmt_store :: "nat \<Rightarrow> IRStmt option"
  stmt_alloc :: nat
  timevar_store :: "nat \<Rightarrow> IRTimeVar option"
  timevar_alloc :: nat
  gensym :: nat
  curbb :: "nat option"
  expr_to_ir_map :: "expr_id \<Rightarrow> nat option"
  bindings :: "SubBindingMap list"
  ir_exprs :: nat
  ast_idents :: "expr_id \<Rightarrow> string option"
  let_inferred_type :: "nat \<Rightarrow> ASTTypeInfo"
  c_frames :: "FuncFrame list"
  errors :: "string list"

datatype Result = VISIT_CONTINUE | VISIT_TERMINAL | VISIT_END

section \<open>CodeGenContext\<close>

function string_of_nat :: "nat \<Rightarrow> string" where
  "string_of_nat n =
     (if n < 10 then [char_of (48 + n)]
      else string_of_nat (n div 10) @ [char_of (48 + n mod 10)])"
  by pat_completeness auto
termination
  by (relation "measure (\<lambda>n. n)") auto

declare string_of_nat.simps [simp del]

text \<open>\<open>CodeGenContext::CodeGenContext\<close>: an empty program, \<open>gensym = 1\<close>, no current BB.
  The seed of \<open>next_valnum\<close> is set by the constructor of \<open>IRProgram\<close>, which is not
  part of the sources, the first function frame is pushed by code outside
  codegen.cc, and the AST (here: the types of its lets) is the argument of the
  constructor: all three are parameters.\<close>

definition CodeGenContext :: "int \<Rightarrow> FuncFrame list \<Rightarrow> (nat \<Rightarrow> ASTTypeInfo) \<Rightarrow> cg_state" where
  "CodeGenContext seed frames let_types =
     \<lparr> bbs = [], entries = [], next_valnum = seed, timevars = [], timevar_map = [],
       timing_model = [], crosslinked_args_bbs = True,
       bb_store = (\<lambda>_. None), bb_alloc = 0,
       stmt_store = (\<lambda>_. None), stmt_alloc = 0,
       timevar_store = (\<lambda>_. None), timevar_alloc = 0,
       gensym = 1, curbb = None, expr_to_ir_map = (\<lambda>_. None),
       bindings = [[]], ir_exprs = 0, ast_idents = (\<lambda>_. None),
       let_inferred_type = let_types,
       c_frames = frames, errors = [] \<rparr>"

definition GenSym :: "string option \<Rightarrow> cg_state \<Rightarrow> string \<times> cg_state" where
  "GenSym prefix s =
     ((case prefix of None \<Rightarrow> ''__codegen_gensym__'' | Some p \<Rightarrow> p @ ''_'')
        @ string_of_nat (gensym s),
      s\<lparr>gensym := gensym s + 1\<rparr>)"

definition AddBB :: "string option \<Rightarrow> cg_state \<Rightarrow> nat \<times> cg_state" where
  "AddBB label_prefix s =
     (let (l, s1) = GenSym label_prefix s; b = bb_alloc s1
      in (b, s1\<lparr>bb_store := (bb_store s1)(b \<mapsto> new_IRBB\<lparr>label := l\<rparr>),
                bb_alloc := b + 1,
                bbs := bbs s1 @ [b]\<rparr>))"

text \<open>
  Value numbers are C++ \<open>int\<close>s, 32 bits in two's complement. \<open>int_wrap\<close> is the
  \<open>int\<close> that a sum yields when its mathematical value has left the range
  \<open>INT_MIN .. INT_MAX\<close>: formally the behaviour is undefined there, and the compiled
  code wraps around.
\<close>

definition INT_MAX :: int where
  "INT_MAX = 2147483647"

definition INT_MIN :: int where
  "INT_MIN = - 2147483648"

definition int_wrap :: "int \<Rightarrow> int" where
  "int_wrap x = (x + 2147483648) mod 4294967296 - 2147483648"

text \<open>\<open>CodeGenContext::AddIRStmt(bb, stmt, expr)\<close>: the statement object gets the next
  address of the statement store; the result is that address. The sum
  \<open>stmt->valnum + 1\<close> is computed in \<open>int\<close>.\<close>

definition AddIRStmt ::
  "nat option \<Rightarrow> IRStmt \<Rightarrow> expr_id option \<Rightarrow> cg_state \<Rightarrow> (nat \<times> cg_state) option" where
  "AddIRStmt bb stmt expr s =
     (case bb of None \<Rightarrow> None
      | Some b \<Rightarrow>
        (case bb_store s b of None \<Rightarrow> None
         | Some B \<Rightarrow>
           let a = stmt_alloc s;
               s1 = (case expr of None \<Rightarrow> s
                     | Some e \<Rightarrow> s\<lparr>expr_to_ir_map := (expr_to_ir_map s)(e \<mapsto> a)\<rparr>);
               s2 = (if valnum stmt \<ge> next_valnum s1
                     then s1\<lparr>next_valnum := int_wrap (valnum stmt + 1)\<rparr> else s1)
           in Some (a, s2\<lparr>stmt_store := (stmt_store s2)(a \<mapsto> stmt),
                           stmt_alloc := a + 1,
                           bb_store := (bb_store s2)(b \<mapsto> B\<lparr>stmts := stmts B @ [a]\<rparr>)\<rparr>)))"

text \<open>
  Modelled from the spec: the inline members of \<open>CodeGenContext\<close> are declared in
  frontend/codegen.h, which is not part of the sources. \<open>Valnum\<close> hands out the
  program's next value number (section 6.4: a monotonic integer); \<open>GetIRStmt\<close> looks an
  expression up in the AST cross-reference (section 3.5) and yields a null pointer when
  there is no entry; the two-argument \<open>AddIRStmt(ir, expr)\<close> associates an expression
  with an existing statement (section 3.5, last write wins); \<open>AddEntry\<close> registers a BB
  on the entry list (section 4.1); \<open>CurBB\<close> and \<open>SetCurBB\<close> read and write the current
  BB; \<open>Error\<close> reports a message to the error collector (section 6.1).
\<close>

definition Valnum :: "cg_state \<Rightarrow> int \<times> cg_state" where
  "Valnum s = (next_valnum s, s\<lparr>next_valnum := next_valnum s + 1\<rparr>)"

definition GetIRStmt :: "ASTExpr option \<Rightarrow> cg_state \<Rightarrow> nat option" where
  "GetIRStmt expr s = (case expr of None \<Rightarrow> None | Some e \<Rightarrow> expr_to_ir_map s (eid e))"

definition AddIRStmt_expr :: "nat option \<Rightarrow> expr_id \<Rightarrow> cg_state \<Rightarrow> cg_state" where
  "AddIRStmt_expr ir e s = s\<lparr>expr_to_ir_map := (expr_to_ir_map s)(e := ir)\<rparr>"

definition AddEntry :: "nat \<Rightarrow> cg_state \<Rightarrow> cg_state" where
  "AddEntry bb s = s\<lparr>entries := entries s @ [bb]\<rparr>"

definition CurBB :: "cg_state \<Rightarrow> nat option" where
  "CurBB s = curbb s"

definition SetCurBB :: "nat option \<Rightarrow> cg_state \<Rightarrow> cg_state" where
  "SetCurBB bb s = s\<lparr>curbb := bb\<rparr>"

definition Error :: "string \<Rightarrow> cg_state \<Rightarrow> cg_state" where
  "Error msg s = s\<lparr>errors := errors s @ [msg]\<rparr>"

text \<open>Reading and writing an object through a pointer.\<close>

definition stmt_at :: "cg_state \<Rightarrow> nat option \<Rightarrow> IRStmt option" where
  "stmt_at s p = (case p of None \<Rightarrow> None | Some a \<Rightarrow> stmt_store s a)"

definition bb_at :: "cg_state \<Rightarrow> nat option \<Rightarrow> IRBB option" where
  "bb_at s p = (case p of None \<Rightarrow> None | Some b \<Rightarrow> bb_store s b)"

definition set_bb :: "nat \<Rightarrow> IRBB \<Rightarrow> cg_state \<Rightarrow> cg_state" where
  "set_bb b B s = s\<lparr>bb_store := (bb_store s)(b \<mapsto> B)\<rparr>"

definition set_stmt :: "nat \<Rightarrow> IRStmt \<Rightarrow> cg_state \<Rightarrow> cg_state" where
  "set_stmt a st s = s\<lparr>stmt_store := (stmt_store s)(a \<mapsto> st)\<rparr>"

text \<open>The statements of a BB, as records, in order; and the value numbers of all
  statements of the program.\<close>

definition bb_stmts :: "cg_state \<Rightarrow> nat \<Rightarrow> IRStmt list" where
  "bb_stmts s b =
     List.map_filter (stmt_store s) (case bb_store s b of None \<Rightarrow> [] | Some B \<Rightarrow> stmts B)"

definition prog_valnums :: "cg_state \<Rightarrow> int list" where
  "prog_valnums s = concat (map (\<lambda>b. map valnum (bb_stmts s b)) (bbs s))"

section \<open>The binding environment\<close>

text \<open>
  Modelled from the spec: the class behind \<open>ctx->Bindings()\<close> is declared in
  frontend/codegen.h, which is not part of the sources. Section 3.4: a stack of overlay
  frames, each mapping a let to the expression that holds its value. \<open>Push\<close> returns a
  level handle (the depth before the push), \<open>PopTo\<close> drops the frames above a level,
  \<open>Set\<close> writes the top frame, \<open>operator[]\<close> searches top-down (a null pointer when
  the let is unbound), \<open>Keys\<close> are all lets visible, \<open>Overlay\<close> flattens everything
  added since a level (later frames win), and \<open>JoinOverlays\<close> returns, per let bound
  in some overlay, the contributors in the order of the overlays, an overlay that does
  not bind the let contributing the value of the enclosing scope.
\<close>

definition Bindings_Push :: "cg_state \<Rightarrow> nat \<times> cg_state" where
  "Bindings_Push s = (length (bindings s), s\<lparr>bindings := bindings s @ [[]]\<rparr>)"

definition Bindings_PopTo :: "nat \<Rightarrow> cg_state \<Rightarrow> cg_state" where
  "Bindings_PopTo level s = s\<lparr>bindings := take level (bindings s)\<rparr>"

definition Bindings_Set :: "nat \<Rightarrow> ASTExpr \<Rightarrow> cg_state \<Rightarrow> cg_state" where
  "Bindings_Set l e s =
     s\<lparr>bindings := (case bindings s of [] \<Rightarrow> [map_set l e []]
                      | _ \<Rightarrow> butlast (bindings s) @ [map_set l e (last (bindings s))])\<rparr>"

fun lookup_frames :: "SubBindingMap list \<Rightarrow> nat \<Rightarrow> ASTExpr option" where
  "lookup_frames [] l = None"
| "lookup_frames (fr # frs) l =
     (case lookup_frames frs l of Some e \<Rightarrow> Some e | None \<Rightarrow> map_of fr l)"

definition Bindings_Get :: "nat \<Rightarrow> cg_state \<Rightarrow> ASTExpr option" where
  "Bindings_Get l s = lookup_frames (bindings s) l"

definition Bindings_Has :: "nat \<Rightarrow> cg_state \<Rightarrow> bool" where
  "Bindings_Has l s = (Bindings_Get l s \<noteq> None)"

definition Bindings_Keys :: "cg_state \<Rightarrow> nat list" where
  "Bindings_Keys s = fold set_insert (map fst (concat (bindings s))) []"

definition Bindings_Overlay :: "nat \<Rightarrow> cg_state \<Rightarrow> SubBindingMap" where
  "Bindings_Overlay level s =
     fold (\<lambda>(k, v). map_set k v) (concat (drop level (bindings s))) []"


section \<open>Function definitions\<close>

text \<open>\<open>c_.back()\<close>: the innermost function frame.\<close>

definition top_frame :: "cg_state \<Rightarrow> FuncFrame option" where
  "top_frame s = (case c_frames s of [] \<Rightarrow> None | _ \<Rightarrow> Some (last (c_frames s)))"

definition set_top_frame :: "FuncFrame \<Rightarrow> cg_state \<Rightarrow> cg_state" where
  "set_top_frame fr s = s\<lparr>c_frames := butlast (c_frames s) @ [fr]\<rparr>"

definition ModifyASTFunctionDefPre ::
  "ASTFunctionDef \<Rightarrow> cg_state \<Rightarrow> (Result \<times> cg_state) option" where
  "ModifyASTFunctionDefPre node s =
     (if \<not> fd_is_entry node then Some (VISIT_TERMINAL, s)
      else
        let (bb, s1) = AddBB None s
        in (case bb_store s1 bb of None \<Rightarrow> None
            | Some B \<Rightarrow>
              let s2 = set_bb bb (B\<lparr>label := fd_name node, is_entry := True\<rparr>) s1;
                  s3 = AddEntry bb s2;
                  s4 = SetCurBB (Some bb) s3
              in Some (VISIT_CONTINUE, s4)))"

definition ModifyASTFunctionDefPost ::
  "ASTFunctionDef \<Rightarrow> cg_state \<Rightarrow> (Result \<times> cg_state) option" where
  "ModifyASTFunctionDefPost node s =
     (if fd_is_entry node then
        let (v, s1) = Valnum s;
            done_stmt = new_IRStmt\<lparr>valnum := v, type := IRStmtDone\<rparr>
        in (case AddIRStmt (CurBB s1) done_stmt None s1 of None \<Rightarrow> None
            | Some (_, s2) \<Rightarrow> Some (VISIT_CONTINUE, s2))
      else Some (VISIT_CONTINUE, s))"

section \<open>Kill, kill-younger, kill-if\<close>





definition side_effect_msg :: string where
  "side_effect_msg =
     ''Expression contains a potential side-effect '' @
     ''(possibly a function call or a statement-block expression '' @
     ''or an array read), which is not allowed in a kill-if '' @
     ''condition. Such conditions may only contain simple '' @
     ''port/chan reads, variable references, and computations '' @
     ''on those values.''"

fun VerifyNoSideEffects :: "ASTExpr \<Rightarrow> cg_state \<Rightarrow> bool \<times> cg_state"
and VerifyNoSideEffects_ops :: "ASTExpr list \<Rightarrow> cg_state \<Rightarrow> bool \<times> cg_state" where
  "VerifyNoSideEffects (ASTExpr i opr os idn cst hc ty d blk) s =
     (if opr = STMTBLOCK \<or> opr = ARRAY_REF then (False, Error side_effect_msg s)
      else VerifyNoSideEffects_ops os s)"
| "VerifyNoSideEffects_ops [] s = (True, s)"
| "VerifyNoSideEffects_ops (x # xs) s =
     (case VerifyNoSideEffects x s of
        (False, s1) \<Rightarrow> (False, s1)
      | (True, s1) \<Rightarrow> VerifyNoSideEffects_ops xs s1)"

definition ModifyASTStmtKillIfPost :: "ASTExpr \<Rightarrow> cg_state \<Rightarrow> (Result \<times> cg_state) option" where
  "ModifyASTStmtKillIfPost condition s =
     (case VerifyNoSideEffects condition s of
        (False, s1) \<Rightarrow> Some (VISIT_END, s1)
      | (True, s1) \<Rightarrow>
          let (v, s2) = Valnum s1;
              cond = GetIRStmt (Some condition) s2
          in do { cond_stmt \<leftarrow> stmt_at s2 cond;
                  a \<leftarrow> cond;
                  let st = new_IRStmt\<lparr>valnum := v, type := IRStmtKillIf,
                             args := [a], arg_nums := [valnum cond_stmt]\<rparr>;
                  (_, s3) \<leftarrow> AddIRStmt (CurBB s2) st None s2;
                  Some (VISIT_CONTINUE, s3) })"

section \<open>Timing blocks and stages\<close>

text \<open>\<open>timevar->uses.push_back(stmt)\<close>.\<close>

definition add_use :: "nat \<Rightarrow> nat \<Rightarrow> cg_state \<Rightarrow> cg_state option" where
  "add_use tv a s =
     (case timevar_store s tv of None \<Rightarrow> None
      | Some T \<Rightarrow> Some (s\<lparr>timevar_store := (timevar_store s)(tv \<mapsto> T\<lparr>uses := uses T @ [a]\<rparr>)\<rparr>))"

definition ModifyASTStmtTimingPre :: "cg_state \<Rightarrow> (Result \<times> cg_state) option" where
  "ModifyASTStmtTimingPre s =
     (let (nm, s1) = GenSym (Some ''timing'') s;
          tv = timevar_alloc s1;
          s2 = s1\<lparr>timevar_store := (timevar_store s1)(tv \<mapsto> \<lparr>tv_name = nm, uses = []\<rparr>),
                  timevar_alloc := tv + 1,
                  timevar_map := (nm, tv) # timevar_map s1\<rparr>
      in do { fr \<leftarrow> top_frame s2;
              let s3 = set_top_frame (fr\<lparr>timing_stack := timing_stack fr @ [tv],
                                        timing_last_stage := timing_last_stage fr @ [0]\<rparr>) s2;
              let (v, s4) = Valnum s3;
              let timing_barrier = new_IRStmt\<lparr>valnum := v, type := IRStmtTimingBarrier,
                                     timevar := Some tv, time_offset := 0\<rparr>;
              s5 \<leftarrow> add_use tv (stmt_alloc s4) s4;
              (_, s6) \<leftarrow> AddIRStmt (CurBB s5) timing_barrier None s5;
              Some (VISIT_CONTINUE, s6\<lparr>timevars := timevars s6 @ [tv]\<rparr>) })"

definition ModifyASTStmtTimingPost :: "cg_state \<Rightarrow> (Result \<times> cg_state) option" where
  "ModifyASTStmtTimingPost s =
     do { fr \<leftarrow> top_frame s;
          if timing_stack fr = [] \<or> timing_last_stage fr = [] then None
          else do {
            let (v, s1) = Valnum s;
            let tv = last (timing_stack fr);
            let timing_barrier = new_IRStmt\<lparr>valnum := v, type := IRStmtTimingBarrier,
                                   timevar := Some tv,
                                   time_offset := last (timing_last_stage fr)\<rparr>;
            s2 \<leftarrow> add_use tv (stmt_alloc s1) s1;
            (_, s3) \<leftarrow> AddIRStmt (CurBB s2) timing_barrier None s2;
            Some (VISIT_CONTINUE,
                  set_top_frame (fr\<lparr>timing_stack := butlast (timing_stack fr),
                                    timing_last_stage := butlast (timing_last_stage fr)\<rparr>) s3) } }"

definition stage_msg :: string where
  "stage_msg =
     [CHR 0x27] @ ''stage'' @ [CHR 0x27] @
     '' statement appears outside of a timing {} block. '' @
     ''Staging barriers can occur only inside the context of a '' @
     ''timing {} block.''"

definition ModifyASTStmtStagePost :: "int \<Rightarrow> cg_state \<Rightarrow> (Result \<times> cg_state) option" where
  "ModifyASTStmtStagePost offset s =
     do { fr \<leftarrow> top_frame s;
          if timing_stack fr = [] then Some (VISIT_END, Error stage_msg s)
          else if timing_last_stage fr = [] then None
          else do {
            let tv = last (timing_stack fr);
            let last_stage = last (timing_last_stage fr);
            let (v1, s1) = Valnum s;
            let late_timing_barrier = new_IRStmt\<lparr>valnum := v1, type := IRStmtTimingBarrier,
                                        timevar := Some tv, time_offset := last_stage\<rparr>;
            s2 \<leftarrow> add_use tv (stmt_alloc s1) s1;
            (_, s3) \<leftarrow> AddIRStmt (CurBB s2) late_timing_barrier None s2;
            let (v2, s4) = Valnum s3;
            let early_timing_barrier = new_IRStmt\<lparr>valnum := v2, type := IRStmtTimingBarrier,
                                         timevar := Some tv, time_offset := offset\<rparr>;
            s5 \<leftarrow> add_use tv (stmt_alloc s4) s4;
            let s6 = set_top_frame
                       (fr\<lparr>timing_last_stage := butlast (timing_last_stage fr) @ [offset]\<rparr>) s5;
            (_, s7) \<leftarrow> AddIRStmt (CurBB s6) early_timing_barrier None s6;
            Some (VISIT_CONTINUE, s7) } }"

section \<open>The value-number invariant\<close>

text \<open>
  The operations through which codegen.cc touches the IR program, as a step relation:
  \<open>Valnum\<close>, \<open>AddBB\<close>, \<open>AddIRStmt\<close>, and steps that leave the statement lists and
  the value numbers alone (\<open>ir_same\<close>: writes to labels, entry flags, phi arguments,
  bindings, frames, errors). The relation holds the steps at which no \<open>int\<close>
  overflows: \<open>Valnum\<close> is taken below \<open>INT_MAX\<close>, and an inserted statement carries
  an \<open>int\<close> below \<open>INT_MAX\<close>.
\<close>

definition stmts_fresh :: "cg_state \<Rightarrow> bool" where
  "stmts_fresh s = (\<forall>b B. bb_store s b = Some B \<longrightarrow> (\<forall>a \<in> set (stmts B). a < stmt_alloc s))"

definition valnums_below :: "cg_state \<Rightarrow> bool" where
  "valnums_below s = (\<forall>v \<in> set (prog_valnums s). v < next_valnum s)"

definition bbs_owned :: "cg_state \<Rightarrow> bool" where
  "bbs_owned s = (\<forall>b. (bb_store s b \<noteq> None \<longrightarrow> b \<in> set (bbs s)) \<and>
                      (bb_alloc s \<le> b \<longrightarrow> bb_store s b = None))"

definition ir_same :: "cg_state \<Rightarrow> cg_state \<Rightarrow> bool" where
  "ir_same s s' =
     (bbs s' = bbs s \<and> next_valnum s' = next_valnum s \<and> stmt_alloc s' = stmt_alloc s \<and>
      bb_alloc s' = bb_alloc s \<and>
      (\<forall>b. map_option stmts (bb_store s' b) = map_option stmts (bb_store s b)) \<and>
      (\<forall>a. map_option valnum (stmt_store s' a) = map_option valnum (stmt_store s a)))"

inductive cg_reach :: "cg_state \<Rightarrow> bool" where
  reach_init: "cg_reach (CodeGenContext seed frames let_types)"
| reach_Valnum: "cg_reach s \<Longrightarrow> next_valnum s < INT_MAX \<Longrightarrow> cg_reach (snd (Valnum s))"
| reach_AddBB: "cg_reach s \<Longrightarrow> cg_reach (snd (AddBB p s))"
| reach_AddIRStmt: "cg_reach s \<Longrightarrow> AddIRStmt bb st e s = Some (a, s') \<Longrightarrow>
                    INT_MIN \<le> valnum st \<Longrightarrow> valnum st < INT_MAX \<Longrightarrow> cg_reach s'"
| reach_other: "cg_reach s \<Longrightarrow> ir_same s s' \<Longrightarrow> cg_reach s'"

definition cg_inv :: "cg_state \<Rightarrow> bool" where
  "cg_inv s = (stmts_fresh s \<and> bbs_owned s \<and> valnums_below s)"

definition wit_s0 :: cg_state where
  "wit_s0 = snd (Valnum (snd (AddBB None (CodeGenContext 1 [] (\<lambda>_. new_ASTTypeInfo)))))"



text \<open>
  What the merge of an if/else relies on, as the C++ heap gives it for free: the next
  BB address is unused, the end BBs of the two sides exist, and a contributing
  expression is an existing node (a placeholder among the \<open>ir_exprs\<close> created so far)
  whose IR statement, if it has one, is an allocated statement.
\<close>

definition contributor_ok :: "cg_state \<Rightarrow> ASTExpr option \<Rightarrow> bool" where
  "contributor_ok s eo =
     ((case eo of None \<Rightarrow> True
       | Some e \<Rightarrow> (case eid e of IRExpr n \<Rightarrow> n < ir_exprs s | SrcExpr _ \<Rightarrow> True)) \<and>
      (case GetIRStmt eo s of None \<Rightarrow> True | Some a \<Rightarrow> a < stmt_alloc s))"





section \<open>The visitor around the function-definition hooks\<close>

text \<open>
  Modelled from the spec: \<open>ASTVisitor\<close> is defined outside codegen.cc. Section 2
  (component 4) and section 9: pre-order and post-order visitation, where a pre-hook
  answers continue (the children are visited), terminal (the children are skipped: the
  hook did its own lowering) or end (error, the visit fails). The post-hook runs in
  both of the first two cases: \<open>ModifyASTStmtAssignPre\<close> answers terminal and leaves
  the assignment itself to \<open>ModifyASTStmtAssignPost\<close>. A block visits its statements
  in order and stops at the first failure. Of the children of a function definition
  only the statements of its block have hooks in this pass.
\<close>

fun visit_stmts ::
  "(ASTStmt \<Rightarrow> cg_state \<Rightarrow> (bool \<times> cg_state) option) \<Rightarrow> ASTStmt list \<Rightarrow> cg_state
     \<Rightarrow> (bool \<times> cg_state) option" where
  "visit_stmts visit [] s = Some (True, s)"
| "visit_stmts visit (x # xs) s =
     do { (ok, s1) \<leftarrow> visit x s;
          if ok then visit_stmts visit xs s1 else Some (False, s1) }"

definition ModifyASTFunctionDef ::
  "(ASTStmt \<Rightarrow> cg_state \<Rightarrow> (bool \<times> cg_state) option) \<Rightarrow> ASTFunctionDef \<Rightarrow> cg_state
     \<Rightarrow> (bool \<times> cg_state) option" where
  "ModifyASTFunctionDef visit node s =
     do { (r, s1) \<leftarrow> ModifyASTFunctionDefPre node s;
          if r = VISIT_END then Some (False, s1)
          else do {
            (ok, s2) \<leftarrow> (if r = VISIT_TERMINAL then Some (True, s1)
                          else visit_stmts visit (fd_block node) s1);
            if \<not> ok then Some (False, s2)
            else do { (r2, s3) \<leftarrow> ModifyASTFunctionDefPost node s2;
                      Some (r2 \<noteq> VISIT_END, s3) } } }"

section \<open>Subtrees\<close>

text \<open>The nodes of the subtree of an expression, in pre-order: the node itself and the
  subtrees of its operands \<open>ops\<close>.\<close>

fun subexprs :: "ASTExpr \<Rightarrow> ASTExpr list"
and subexprs_list :: "ASTExpr list \<Rightarrow> ASTExpr list" where
  "subexprs (ASTExpr i opr os idn cst hc ty d blk) =
     ASTExpr i opr os idn cst hc ty d blk # subexprs_list os"
| "subexprs_list [] = []"
| "subexprs_list (x # xs) = subexprs x @ subexprs_list xs"

text \<open>The timing barrier that the timing and stage hooks build.\<close>

definition timing_barrier_stmt :: "int \<Rightarrow> nat \<Rightarrow> int \<Rightarrow> IRStmt" where
  "timing_barrier_stmt v tv off =
     new_IRStmt\<lparr>valnum := v, type := IRStmtTimingBarrier, timevar := Some tv, time_offset := off\<rparr>"

section \<open>Entity trace-back, assignments, writes and expressions\<close>

text \<open>\<open>node->ident->name\<close>: the name the lowering has stored into the node, else the name
  the node came with; \<open>None\<close> when the node has no \<open>ident\<close> object.\<close>

definition node_ident :: "cg_state \<Rightarrow> ASTExpr \<Rightarrow> string option" where
  "node_ident s e = (case ast_idents s (eid e) of Some n \<Rightarrow> Some n | None \<Rightarrow> ident e)"

definition set_node_ident :: "ASTExpr \<Rightarrow> string \<Rightarrow> cg_state \<Rightarrow> cg_state" where
  "set_node_ident e n s = s\<lparr>ast_idents := (ast_idents s)(eid e \<mapsto> n)\<rparr>"

definition trace_msg :: string where
  "trace_msg = ''Port/array/reg value expected but cannot trace back to def statically.''"

text \<open>\<open>FindEntityDef\<close> follows the bindings of variables; a binding chain that runs in a
  circle makes it recurse forever, and an unbound variable makes it dereference a null
  pointer: both are \<open>None\<close>.\<close>

partial_function (option) FindEntityDef ::
  "ASTExpr \<Rightarrow> Op \<Rightarrow> cg_state \<Rightarrow> (ASTExpr option \<times> cg_state) option" where
  "FindEntityDef node def_type s =
     (if e_op node = def_type then Some (Some node, s)
      else if e_op node = VAR then
        (case def node of None \<Rightarrow> None
         | Some l \<Rightarrow>
           (case Bindings_Get l s of None \<Rightarrow> None
            | Some binding \<Rightarrow> FindEntityDef binding def_type s))
      else Some (None, Error trace_msg s))"

definition ModifyASTStmtLetPost :: "nat \<Rightarrow> ASTExpr \<Rightarrow> cg_state \<Rightarrow> (Result \<times> cg_state) option" where
  "ModifyASTStmtLetPost l rhs s = Some (VISIT_CONTINUE, Bindings_Set l rhs s)"




definition write_msg :: string where
  "write_msg = ''Write to something not a port or chan''"

definition ModifyASTStmtWritePost ::
  "ASTExpr \<Rightarrow> ASTExpr \<Rightarrow> cg_state \<Rightarrow> (Result \<times> cg_state) option" where
  "ModifyASTStmtWritePost port rhs s =
     (let (v, s1) = Valnum s;
          write_stmt = new_IRStmt\<lparr>valnum := v\<rparr>
      in do { (portdef_opt, s2) \<leftarrow> FindEntityDef port PORTDEF s1;
              case portdef_opt of None \<Rightarrow> Some (VISIT_END, s2)
              | Some portdef \<Rightarrow>
                do { let (write_stmt1, s3) =
                           (if is_port (inferred_type portdef)
                              then (write_stmt\<lparr>type := IRStmtPortWrite\<rparr>, s2)
                            else if is_chan (inferred_type portdef)
                              then (write_stmt\<lparr>type := IRStmtChanWrite\<rparr>, s2)
                            else (write_stmt, Error write_msg s2));
                     nm \<leftarrow> node_ident s3 portdef;
                     val \<leftarrow> GetIRStmt (Some rhs) s3;
                     val_stmt \<leftarrow> stmt_store s3 val;
                     let write_stmt2 = write_stmt1\<lparr>port_name := nm,
                           args := [val], arg_nums := [valnum val_stmt],
                           width := t_width (inferred_type rhs),
                           port_default := e_constant portdef,
                           port_has_default := e_has_constant portdef\<rparr>;
                     (_, s4) \<leftarrow> AddIRStmt (CurBB s3) write_stmt2 None s3;
                     Some (VISIT_CONTINUE, s4) } })"

fun ExprTypeToOpType :: "Op \<Rightarrow> IRStmtOp" where
  "ExprTypeToOpType ADD = IRStmtOpAdd"
| "ExprTypeToOpType SUB = IRStmtOpSub"
| "ExprTypeToOpType MUL = IRStmtOpMul"
| "ExprTypeToOpType DIV = IRStmtOpDiv"
| "ExprTypeToOpType REM = IRStmtOpRem"
| "ExprTypeToOpType AND = IRStmtOpAnd"
| "ExprTypeToOpType OR = IRStmtOpOr"
| "ExprTypeToOpType NOT = IRStmtOpNot"
| "ExprTypeToOpType XOR = IRStmtOpXor"
| "ExprTypeToOpType LSH = IRStmtOpLsh"
| "ExprTypeToOpType RSH = IRStmtOpRsh"
| "ExprTypeToOpType SEL = IRStmtOpSelect"
| "ExprTypeToOpType BITSLICE = IRStmtOpBitslice"
| "ExprTypeToOpType CONCAT = IRStmtOpConcat"
| "ExprTypeToOpType EQ = IRStmtOpCmpEQ"
| "ExprTypeToOpType NE = IRStmtOpCmpNE"
| "ExprTypeToOpType LE = IRStmtOpCmpLE"
| "ExprTypeToOpType LT = IRStmtOpCmpLT"
| "ExprTypeToOpType GE = IRStmtOpCmpGE"
| "ExprTypeToOpType GT = IRStmtOpCmpGT"
| "ExprTypeToOpType _ = IRStmtOpNone"

text \<open>The loop over \<open>node->ops\<close> that collects the arguments of an expression
  statement; an operand without an IR statement is a null dereference.\<close>

fun op_args :: "ASTExpr list \<Rightarrow> cg_state \<Rightarrow> (nat list \<times> int list) option" where
  "op_args [] s = Some ([], [])"
| "op_args (x # xs) s =
     do { op_stmt \<leftarrow> GetIRStmt (Some x) s;
          st \<leftarrow> stmt_store s op_stmt;
          (as, ns) \<leftarrow> op_args xs s;
          Some (op_stmt # as, valnum st # ns) }"

definition chan_name_msg :: string where
  "chan_name_msg = ''Cannot use a defined name on a chan: chans must be anonymous.''"

definition read_msg :: string where
  "read_msg = ''Read from something not a port or chan''"

definition stmtblock_msg :: string where
  "stmtblock_msg = ''Statement-block expr where last stmt is not an expression statement.''"

text \<open>The \<open>default\<close> branch of \<open>ModifyASTExprPost\<close> reports an unsupported node type and
  then fails \<open>assert(false)\<close>: it is the last \<open>None\<close> below.\<close>

definition ModifyASTExprPost :: "ASTExpr \<Rightarrow> cg_state \<Rightarrow> (Result \<times> cg_state) option" where
  "ModifyASTExprPost node s =
     (let opr = ExprTypeToOpType (e_op node) in
      if opr \<noteq> IRStmtOpNone then
        do { let (v, s1) = Valnum s;
             (as, ns) \<leftarrow> op_args (ops node) s1;
             let st = new_IRStmt\<lparr>valnum := v, type := IRStmtExpr, op := opr,
                        width := t_width (inferred_type node), args := as, arg_nums := ns\<rparr>;
             (_, s2) \<leftarrow> AddIRStmt (CurBB s1) st (Some (eid node)) s1;
             Some (VISIT_CONTINUE, s2) }
      else if e_op node = CONST_E then
        do { let (v, s1) = Valnum s;
             let st = new_IRStmt\<lparr>type := IRStmtExpr, op := IRStmtOpConst, valnum := v,
                        constant := e_constant node, has_constant := True,
                        width := t_width (inferred_type node)\<rparr>;
             (_, s2) \<leftarrow> AddIRStmt (CurBB s1) st (Some (eid node)) s1;
             Some (VISIT_CONTINUE, s2) }
      else if e_op node = VAR then
        (let expr = (case def node of None \<Rightarrow> None | Some l \<Rightarrow> Bindings_Get l s);
             ir = GetIRStmt expr s
         in if ir \<noteq> None then Some (VISIT_CONTINUE, AddIRStmt_expr ir (eid node) s)
            else Some (VISIT_CONTINUE, s))
      else if e_op node = PORTDEF then
        do { nm \<leftarrow> node_ident s node;
             if nm \<noteq> [] then
               if is_chan (inferred_type node) then Some (VISIT_END, Error chan_name_msg s)
               else do {
                 let (v, s1) = Valnum s;
                 let export_stmt = new_IRStmt\<lparr>valnum := v, type := IRStmtPortExport,
                       port_name := nm, width := t_width (inferred_type node)\<rparr>;
                 (_, s2) \<leftarrow> AddIRStmt (CurBB s1) export_stmt None s1;
                 Some (VISIT_CONTINUE, s2) }
             else (let (g, s1) = GenSym None s
                   in Some (VISIT_CONTINUE, set_node_ident node g s1)) }
      else if e_op node = PORTREAD then
        (case ops node of [] \<Rightarrow> None
         | op0 # _ \<Rightarrow>
           do { (portdef_opt, s1) \<leftarrow> FindEntityDef op0 PORTDEF s;
                case portdef_opt of None \<Rightarrow> Some (VISIT_END, s1)
                | Some portdef \<Rightarrow>
                  do { let (v, s2) = Valnum s1;
                       let read_stmt = new_IRStmt\<lparr>valnum := v\<rparr>;
                       let (read_stmt1, s3) =
                             (if is_port (inferred_type portdef)
                                then (read_stmt\<lparr>type := IRStmtPortRead\<rparr>, s2)
                              else if is_chan (inferred_type portdef)
                                then (read_stmt\<lparr>type := IRStmtChanRead\<rparr>, s2)
                              else (read_stmt, Error read_msg s2));
                       nm \<leftarrow> node_ident s3 portdef;
                       let read_stmt2 = read_stmt1\<lparr>port_name := nm,
                             width := t_width (inferred_type portdef)\<rparr>;
                       (_, s4) \<leftarrow> AddIRStmt (CurBB s3) read_stmt2 (Some (eid node)) s3;
                       Some (VISIT_CONTINUE, s4) } })
      else if e_op node = ARRAY_INIT then
        do { let (g, s1) = GenSym (Some ''array'') s;
             let s2 = set_node_ident node g s1;
             let (v, s3) = Valnum s2;
             let array_def = new_IRStmt\<lparr>valnum := v, type := IRStmtArraySize, port_name := g,
                   constant := array_size (inferred_type node)\<rparr>;
             (_, s4) \<leftarrow> AddIRStmt (CurBB s3) array_def None s3;
             Some (VISIT_CONTINUE, s4) }
      else if e_op node = ARRAY_REF then
        (case ops node of
           op0 # op1 # _ \<Rightarrow>
           do { (arraydef_opt, s1) \<leftarrow> FindEntityDef op0 ARRAY_INIT s;
                case arraydef_opt of None \<Rightarrow> Some (VISIT_END, s1)
                | Some arraydef \<Rightarrow>
                  do { let (v, s2) = Valnum s1;
                       index_arg \<leftarrow> GetIRStmt (Some op1) s2;
                       index_stmt \<leftarrow> stmt_store s2 index_arg;
                       nm \<leftarrow> node_ident s2 arraydef;
                       let array_read = new_IRStmt\<lparr>valnum := v, type := IRStmtArrayRead,
                             width := t_width (inferred_type node),
                             args := [index_arg], arg_nums := [valnum index_stmt],
                             port_name := nm\<rparr>;
                       (_, s3) \<leftarrow> AddIRStmt (CurBB s2) array_read (Some (eid node)) s2;
                       Some (VISIT_CONTINUE, s3) } }
         | _ \<Rightarrow> None)
      else if e_op node = REG_INIT then
        (let (g, s1) = GenSym (Some ''reg'') s
         in Some (VISIT_CONTINUE, set_node_ident node g s1))
      else if e_op node = REG_REF then
        (case ops node of [] \<Rightarrow> None
         | op0 # _ \<Rightarrow>
           do { (regdef_opt, s1) \<leftarrow> FindEntityDef op0 REG_INIT s;
                case regdef_opt of None \<Rightarrow> Some (VISIT_END, s1)
                | Some regdef \<Rightarrow>
                  do { let (v, s2) = Valnum s1;
                       nm \<leftarrow> node_ident s2 regdef;
                       let reg_read = new_IRStmt\<lparr>valnum := v, type := IRStmtRegRead,
                             width := t_width (inferred_type node), port_name := nm\<rparr>;
                       (_, s3) \<leftarrow> AddIRStmt (CurBB s2) reg_read (Some (eid node)) s2;
                       Some (VISIT_CONTINUE, s3) } })
      else if e_op node = BYPASSDEF then
        (let (g, s1) = GenSym (Some ''bypass'') s
         in Some (VISIT_CONTINUE, set_node_ident node g s1))
      else if e_op node = BYPASSPRESENT \<or> e_op node = BYPASSREADY \<or> e_op node = BYPASSREAD then
        (case ops node of
           op0 # op1 # _ \<Rightarrow>
           do { (bypassdef_opt, s1) \<leftarrow> FindEntityDef op0 BYPASSDEF s;
                case bypassdef_opt of None \<Rightarrow> Some (VISIT_END, s1)
                | Some bypassdef \<Rightarrow>
                  do { let ty = (if e_op node = BYPASSPRESENT then IRStmtBypassPresent
                                 else if e_op node = BYPASSREADY then IRStmtBypassReady
                                 else IRStmtBypassRead);
                       let (v, s2) = Valnum s1;
                       nm \<leftarrow> node_ident s2 bypassdef;
                       index_arg \<leftarrow> GetIRStmt (Some op1) s2;
                       index_stmt \<leftarrow> stmt_store s2 index_arg;
                       let bypassop = new_IRStmt\<lparr>type := ty, valnum := v,
                             width := t_width (inferred_type node), port_name := nm,
                             args := [index_arg], arg_nums := [valnum index_stmt]\<rparr>;
                       (_, s3) \<leftarrow> AddIRStmt (CurBB s2) bypassop (Some (eid node)) s2;
                       Some (VISIT_CONTINUE, s3) } }
         | _ \<Rightarrow> None)
      else if e_op node = STMTBLOCK then
        do { blk \<leftarrow> e_stmt node;
             case (if blk = [] then None else Some (last blk)) of
               Some (ASTStmtExpr expr_value) \<Rightarrow>
                 Some (VISIT_CONTINUE,
                       AddIRStmt_expr (GetIRStmt (Some expr_value) s) (eid node) s)
             | _ \<Rightarrow> Some (VISIT_END, Error stmtblock_msg s) }
      else if e_op node = CAST then
        (case ops node of [] \<Rightarrow> None
         | op0 # _ \<Rightarrow>
           Some (VISIT_CONTINUE, AddIRStmt_expr (GetIRStmt (Some op0) s) (eid node) s))
      else None)"

definition ModifyASTStmtExprPost :: "cg_state \<Rightarrow> (Result \<times> cg_state) option" where
  "ModifyASTStmtExprPost s = Some (VISIT_CONTINUE, s)"

section \<open>The parser of type definitions (frontend/parser.cc)\<close>

text \<open>
  Modelled from the spec: the token stream of the parser (\<open>CurToken\<close>, \<open>Consume\<close>,
  \<open>TryConsume\<close>, \<open>Expect\<close>, \<open>Error\<close>) and the smart pointer \<open>ASTRef\<close> are declared in
  frontend/parser.h and frontend/ast.h, which are not part of the sources; the spec
  (section 9) treats the parser as upstream. The helpers are modelled by their uses in
  parser.cc: \<open>Expect\<close> tests the kind of the current token and reports an error when it
  differs, \<open>Consume(kind)\<close> expects and then advances, \<open>TryConsume\<close> advances only when
  the kind matches and reports nothing, and past the last token the current token is
  the end-of-file token. A default-constructed \<open>ASTRef\<close> holds no object (section 9:
  the field is constructed but not allocated); using it is the fault \<open>NullDeref\<close>.
\<close>

datatype TokenType =
    IDENT | LBRACE | RBRACE | LPAREN | RPAREN | COLON | SEMICOLON | EQUALS
  | EOFTOKEN | OTHER_TOKEN

record Token =
  tok_type :: TokenType
  tok_s :: string

record Parser =
  toks :: "Token list"
  parse_errors :: "string list"

datatype fault = NullDeref

record ASTIdent =
  id_name :: string

record ASTType =
  ty_is_port :: bool
  ty_ident :: "ASTIdent option"

record ASTTypeField =
  tf_ident :: "ASTIdent option"
  tf_type :: "ASTType option"

record ASTTypeDef =
  td_ident :: "ASTIdent option"
  td_fields :: "ASTTypeField option list"

definition new_ASTIdent :: ASTIdent where
  "new_ASTIdent = \<lparr> id_name = [] \<rparr>"

definition new_ASTType :: ASTType where
  "new_ASTType = \<lparr> ty_is_port = False, ty_ident = None \<rparr>"

definition new_ASTTypeDef :: ASTTypeDef where
  "new_ASTTypeDef = \<lparr> td_ident = None, td_fields = [] \<rparr>"

definition CurToken :: "Parser \<Rightarrow> Token" where
  "CurToken p = (case toks p of [] \<Rightarrow> \<lparr> tok_type = EOFTOKEN, tok_s = [] \<rparr> | t # _ \<Rightarrow> t)"

definition Consume0 :: "Parser \<Rightarrow> Parser" where
  "Consume0 p = p\<lparr>toks := tl (toks p)\<rparr>"

definition Expect :: "TokenType \<Rightarrow> Parser \<Rightarrow> bool \<times> Parser" where
  "Expect t p =
     (if tok_type (CurToken p) = t then (True, p)
      else (False, p\<lparr>parse_errors := parse_errors p @ [''Unexpected token'']\<rparr>))"

definition Consume :: "TokenType \<Rightarrow> Parser \<Rightarrow> bool \<times> Parser" where
  "Consume t p = (case Expect t p of (True, p1) \<Rightarrow> (True, Consume0 p1) | (False, p1) \<Rightarrow> (False, p1))"

definition TryConsume :: "TokenType \<Rightarrow> Parser \<Rightarrow> bool \<times> Parser" where
  "TryConsume t p = (if tok_type (CurToken p) = t then (True, Consume0 p) else (False, p))"

text \<open>\<open>Parser::ParseIdent\<close> and \<open>Parser::ParseType\<close> write through the pointer they are
  given.\<close>

definition ParseIdent :: "ASTIdent option \<Rightarrow> Parser \<Rightarrow> fault + (bool \<times> ASTIdent option \<times> Parser)" where
  "ParseIdent idn p =
     (case Expect IDENT p of
        (False, p1) \<Rightarrow> Inr (False, idn, p1)
      | (True, p1) \<Rightarrow>
          (case idn of None \<Rightarrow> Inl NullDeref
           | Some i \<Rightarrow> Inr (True, Some (i\<lparr>id_name := tok_s (CurToken p1)\<rparr>), Consume0 p1)))"

definition ParseType :: "ASTType option \<Rightarrow> Parser \<Rightarrow> fault + (bool \<times> ASTType option \<times> Parser)" where
  "ParseType ty p =
     (case Expect IDENT p of
        (False, p1) \<Rightarrow> Inr (False, ty, p1)
      | (True, p1) \<Rightarrow>
          (case ty of None \<Rightarrow> Inl NullDeref
           | Some t \<Rightarrow>
             let step = (if tok_s (CurToken p1) = ''port''
                         then (let p2 = Consume0 p1; (ok, p3) = Expect IDENT p2
                               in (ok, t\<lparr>ty_is_port := True\<rparr>, p3))
                         else (True, t, p1))
             in (case step of
                   (False, t1, p3) \<Rightarrow> Inr (False, Some t1, p3)
                 | (True, t1, p3) \<Rightarrow>
                     (case ParseIdent (Some new_ASTIdent) p3 of
                        Inl f \<Rightarrow> Inl f
                      | Inr (ok, i, p4) \<Rightarrow> Inr (ok, Some (t1\<lparr>ty_ident := i\<rparr>), p4)))))"

text \<open>The loop of \<open>Parser::ParseTypeDef\<close> over the fields. The local
  \<open>ASTRef<ASTTypeField> field\<close> is default-constructed, and the first statement after
  it writes \<open>field->ident\<close>.\<close>

function ParseTypeDef_fields ::
  "ASTTypeDef \<Rightarrow> Parser \<Rightarrow> fault + (bool \<times> ASTTypeDef \<times> Parser)" where
  "ParseTypeDef_fields d p =
     (case TryConsume RBRACE p of
        (True, p1) \<Rightarrow> Inr (True, d, p1)
      | (False, p1) \<Rightarrow>
          (let field = (None :: ASTTypeField option)
           in case field of None \<Rightarrow> Inl NullDeref
              | Some f \<Rightarrow>
                (case ParseIdent (Some new_ASTIdent) p1 of
                   Inl e \<Rightarrow> Inl e
                 | Inr (False, i, p2) \<Rightarrow> Inr (False, d, p2)
                 | Inr (True, i, p2) \<Rightarrow>
                     (case Consume COLON p2 of
                        (False, p3) \<Rightarrow> Inr (False, d, p3)
                      | (True, p3) \<Rightarrow>
                          (case ParseType (Some new_ASTType) p3 of
                             Inl e \<Rightarrow> Inl e
                           | Inr (False, t, p4) \<Rightarrow> Inr (False, d, p4)
                           | Inr (True, t, p4) \<Rightarrow>
                               (case Consume SEMICOLON p4 of
                                  (False, p5) \<Rightarrow> Inr (False, d, p5)
                                | (True, p5) \<Rightarrow>
                                    ParseTypeDef_fields
                                      (d\<lparr>td_fields := td_fields d @
                                           [Some (f\<lparr>tf_ident := i, tf_type := t\<rparr>)]\<rparr>) p5))))))"
  by pat_completeness auto
termination
  by (relation "measure (\<lambda>(d, p). length (toks p))") auto

declare ParseTypeDef_fields.simps [simp del]

definition ParseTypeDef :: "ASTTypeDef option \<Rightarrow> Parser \<Rightarrow> fault + (bool \<times> ASTTypeDef option \<times> Parser)" where
  "ParseTypeDef def0 p =
     (case def0 of None \<Rightarrow> Inl NullDeref
      | Some d \<Rightarrow>
        (case ParseIdent (Some new_ASTIdent) p of
           Inl e \<Rightarrow> Inl e
         | Inr (False, i, p1) \<Rightarrow> Inr (False, Some (d\<lparr>td_ident := i\<rparr>), p1)
         | Inr (True, i, p1) \<Rightarrow>
             (case Consume LBRACE p1 of
                (False, p2) \<Rightarrow> Inr (False, Some (d\<lparr>td_ident := i\<rparr>), p2)
              | (True, p2) \<Rightarrow>
                  (case ParseTypeDef_fields (d\<lparr>td_ident := i\<rparr>) p2 of
                     Inl e \<Rightarrow> Inl e
                   | Inr (ok, d1, p3) \<Rightarrow> Inr (ok, Some d1, p3)))))"

section \<open>If/else\<close>

text \<open>A placeholder expression created by the lowering: a \<open>NOP\<close> node, the next element of
  \<open>ast->ir_exprs\<close>.\<close>

definition placeholder_expr :: "cg_state \<Rightarrow> ASTTypeInfo \<Rightarrow> ASTExpr" where
  "placeholder_expr s ty = ASTExpr (IRExpr (ir_exprs s)) NOP [] None 0 False ty None None"

definition push_ir_expr :: "cg_state \<Rightarrow> cg_state" where
  "push_ir_expr s = s\<lparr>ir_exprs := ir_exprs s + 1\<rparr>"

definition jmp_stmt :: "int \<Rightarrow> nat \<Rightarrow> string \<Rightarrow> IRStmt" where
  "jmp_stmt v target target_label =
     new_IRStmt\<lparr>valnum := v, type := IRStmtJmp, targets := [target],
                 target_names := [target_label]\<rparr>"






section \<open>While, break, continue\<close>


definition set_loop_frame :: "nat \<Rightarrow> LoopFrame \<Rightarrow> cg_state \<Rightarrow> cg_state option" where
  "set_loop_frame i lf s =
     do { fr \<leftarrow> top_frame s;
          if i < length (loop_frames fr)
          then Some (set_top_frame (fr\<lparr>loop_frames := (loop_frames fr)[i := lf]\<rparr>) s)
          else None }"

definition push_loop_frame :: "LoopFrame \<Rightarrow> cg_state \<Rightarrow> cg_state option" where
  "push_loop_frame lf s =
     do { fr \<leftarrow> top_frame s;
          Some (set_top_frame (fr\<lparr>loop_frames := loop_frames fr @ [lf]\<rparr>) s) }"






text \<open>The loop of \<open>ModifyASTStmtWhilePre\<close> over the lets in scope, which emits the
  placeholder phis of the header.\<close>

fun while_header_phis ::
  "nat list \<Rightarrow> nat \<Rightarrow> nat option \<Rightarrow> (nat \<times> nat) list \<Rightarrow> cg_state
     \<Rightarrow> ((nat \<times> nat) list \<times> cg_state) option" where
  "while_header_phis [] hdr in_b binding_phis s = Some (binding_phis, s)"
| "while_header_phis (l # ls) hdr in_b binding_phis s =
     (if \<not> Bindings_Has l s then while_header_phis ls hdr in_b binding_phis s
      else
        (case GetIRStmt (Bindings_Get l s) s of
           None \<Rightarrow> while_header_phis ls hdr in_b binding_phis s
         | Some binding_ir \<Rightarrow>
             do { ir_st \<leftarrow> stmt_store s binding_ir;
                  let (v, s1) = Valnum s;
                  in_a \<leftarrow> in_b;
                  in_B \<leftarrow> bb_store s1 in_a;
                  let phi_node = new_IRStmt\<lparr>type := IRStmtPhi, valnum := v,
                        width := width ir_st,
                        targets := [in_a], target_names := [label in_B],
                        args := [binding_ir], arg_nums := [valnum ir_st]\<rparr>;
                  let ast_expr = placeholder_expr s1 new_ASTTypeInfo;
                  (a, s2) \<leftarrow> AddIRStmt (Some hdr) phi_node (Some (eid ast_expr)) s1;
                  let s3 = Bindings_Set l ast_expr s2;
                  let s4 = push_ir_expr s3;
                  while_header_phis ls hdr in_b (map_set l a binding_phis) s4 }))"

text \<open>\<open>ModifyASTStmtWhilePre\<close> up to the point where the condition is visited: the loop
  frame, header and footer, the jump into the header, the header phis.\<close>

definition while_open :: "string option \<Rightarrow> cg_state \<Rightarrow> ((nat \<times> nat) list \<times> cg_state) option" where
  "while_open lbl s =
     (let (depth, s1) = Bindings_Push s;
          bb_name_prefix = (case lbl of None \<Rightarrow> ''while_'' | Some n \<Rightarrow> n @ ''_'');
          (hdr, s2) = AddBB (Some (bb_name_prefix @ ''header'')) s1;
          (ftr, s3) = AddBB (Some (bb_name_prefix @ ''footer'')) s2;
          frame = new_LoopFrame\<lparr>while_label := lbl, overlay_depth := depth,
                    header := Some hdr, footer := Some ftr, in_bb := CurBB s3\<rparr>
      in do {
        s4 \<leftarrow> push_loop_frame frame s3;
        hdr_B \<leftarrow> bb_store s4 hdr;
        let (v, s5) = Valnum s4;
        (_, s6) \<leftarrow> AddIRStmt (CurBB s5) (jmp_stmt v hdr (label hdr_B)) None s5;
        let s7 = SetCurBB (Some hdr) s6;
        while_header_phis (Bindings_Keys s7) hdr (in_bb frame) [] s7 })"




section \<open>Header phis of a while loop\<close>






definition unknown_label_msg :: "string \<Rightarrow> string" where
  "unknown_label_msg l = ''Break/continue with unknown label '' @ [CHR 0x27] @ l @ [CHR 0x27]"

definition not_in_loop_msg :: string where
  "not_in_loop_msg = ''Break/continue not in loop''"

text \<open>The search of \<open>FindLoopFrame\<close> from the innermost frame outwards: the index of the
  first frame, counted from the end of the list, whose label is the given one.\<close>

fun find_labelled_frame :: "LoopFrame list \<Rightarrow> string \<Rightarrow> nat option" where
  "find_labelled_frame [] l = None"
| "find_labelled_frame (f # fs) l =
     (case find_labelled_frame fs l of
        Some i \<Rightarrow> Some (Suc i)
      | None \<Rightarrow> if while_label f = Some l then Some 0 else None)"

definition FindLoopFrame :: "string option \<Rightarrow> cg_state \<Rightarrow> (nat option \<times> cg_state) option" where
  "FindLoopFrame lbl s =
     do { fr \<leftarrow> top_frame s;
          case lbl of
            Some l \<Rightarrow>
              (case find_labelled_frame (loop_frames fr) l of
                 Some i \<Rightarrow> Some (Some i, s)
               | None \<Rightarrow> Some (None, Error (unknown_label_msg l) s))
          | None \<Rightarrow>
              if loop_frames fr = [] then Some (None, Error not_in_loop_msg s)
              else Some (Some (length (loop_frames fr) - 1), s) }"

text \<open>\<open>HandleBreakContinue\<close>; \<open>is_break\<close> selects \<open>frame->break_edges\<close> and the footer,
  otherwise \<open>frame->continue_edges\<close> and the header.\<close>

definition HandleBreakContinue :: "nat \<Rightarrow> bool \<Rightarrow> cg_state \<Rightarrow> cg_state option" where
  "HandleBreakContinue i is_break s =
     do { fr \<leftarrow> top_frame s;
          frame \<leftarrow> (if i < length (loop_frames fr) then Some (loop_frames fr ! i) else None);
          let bnd = Bindings_Overlay (overlay_depth frame) s;
          let (_, s1) = Bindings_Push s;
          cur \<leftarrow> CurBB s1;
          s2 \<leftarrow> set_loop_frame i
                  (if is_break
                   then frame\<lparr>break_edges := map_insert cur bnd (break_edges frame)\<rparr>
                   else frame\<lparr>continue_edges := map_insert cur bnd (continue_edges frame)\<rparr>) s1;
          target \<leftarrow> (if is_break then footer frame else header frame);
          target_B \<leftarrow> bb_store s2 target;
          let (v, s3) = Valnum s2;
          (_, s4) \<leftarrow> AddIRStmt (CurBB s3) (jmp_stmt v target (label target_B)) None s3;
          let (u, s5) = AddBB (Some ''unreachable'') s4;
          Some (SetCurBB (Some u) s5) }"

definition ModifyASTStmtBreakPost :: "string option \<Rightarrow> cg_state \<Rightarrow> (Result \<times> cg_state) option" where
  "ModifyASTStmtBreakPost lbl s =
     do { (frame, s1) \<leftarrow> FindLoopFrame lbl s;
          case frame of None \<Rightarrow> Some (VISIT_END, s1)
          | Some i \<Rightarrow> do { s2 \<leftarrow> HandleBreakContinue i True s1;
                            Some (VISIT_CONTINUE, s2) } }"

definition ModifyASTStmtContinuePost :: "string option \<Rightarrow> cg_state \<Rightarrow> (Result \<times> cg_state) option" where
  "ModifyASTStmtContinuePost lbl s =
     do { (frame, s1) \<leftarrow> FindLoopFrame lbl s;
          case frame of None \<Rightarrow> Some (VISIT_END, s1)
          | Some i \<Rightarrow> do { s2 \<leftarrow> HandleBreakContinue i False s1;
                            Some (VISIT_CONTINUE, s2) } }"

section \<open>Spawn, nested functions, pragmas\<close>

text \<open>The constant \<open>kIRStmtWidthTxnID\<close> is defined in the IR header, which is not part
  of the sources; it is a parameter.\<close>

definition ModifyASTStmtSpawnPre ::
  "int \<Rightarrow> (ASTStmt \<Rightarrow> cg_state \<Rightarrow> (bool \<times> cg_state) option) \<Rightarrow> ASTStmt \<Rightarrow> cg_state
     \<Rightarrow> (Result \<times> cg_state) option" where
  "ModifyASTStmtSpawnPre kIRStmtWidthTxnID visitS body s =
     (let cur_bb = CurBB s;
          (spawn_bb, s1) = AddBB (Some ''spawn'') s;
          (v, s2) = Valnum s1
      in do {
        spawn_B \<leftarrow> bb_store s2 spawn_bb;
        let spawn_stmt = new_IRStmt\<lparr>valnum := v, type := IRStmtSpawn,
              width := kIRStmtWidthTxnID, targets := [spawn_bb],
              target_names := [label spawn_B]\<rparr>;
        (_, s3) \<leftarrow> AddIRStmt (CurBB s2) spawn_stmt None s2;
        let s4 = SetCurBB (Some spawn_bb) s3;
        let (level, s5) = Bindings_Push s4;
        (ok, s6) \<leftarrow> visitS body s5;
        if \<not> ok then Some (VISIT_END, s6)
        else do {
          let s7 = Bindings_PopTo level s6;
          let (v1, s8) = Valnum s7;
          let kill_stmt = new_IRStmt\<lparr>valnum := v1, type := IRStmtKill\<rparr>;
          (_, s9) \<leftarrow> AddIRStmt (CurBB s8) kill_stmt None s8;
          Some (VISIT_TERMINAL, SetCurBB cur_bb s9) } })"

definition ModifyASTStmtNestedFuncPre ::
  "(ASTStmt list \<Rightarrow> cg_state \<Rightarrow> (bool \<times> cg_state) option) \<Rightarrow> ASTStmt list \<Rightarrow> cg_state
     \<Rightarrow> (Result \<times> cg_state) option" where
  "ModifyASTStmtNestedFuncPre visitB body s =
     (let s1 = s\<lparr>c_frames := c_frames s @ [new_FuncFrame\<lparr>last_curbb := CurBB s\<rparr>]\<rparr>;
          (entry, s2) = AddBB (Some ''anon_func'') s1
      in do {
        entry_B \<leftarrow> bb_store s2 entry;
        let s3 = set_bb entry (entry_B\<lparr>is_entry := True\<rparr>) s2;
        let s4 = s3\<lparr>entries := entries s3 @ [entry]\<rparr>;
        let s5 = SetCurBB (Some entry) s4;
        (ok, s6) \<leftarrow> visitB body s5;
        if \<not> ok then Some (VISIT_END, s6)
        else do {
          let (v, s7) = Valnum s6;
          let done_stmt = new_IRStmt\<lparr>valnum := v, type := IRStmtDone\<rparr>;
          (_, s8) \<leftarrow> AddIRStmt (CurBB s7) done_stmt None s7;
          fr \<leftarrow> top_frame s8;
          let s9 = SetCurBB (last_curbb fr) s8;
          Some (VISIT_TERMINAL, s9\<lparr>c_frames := butlast (c_frames s9)\<rparr>) } })"

definition ModifyASTPragmaPost :: "string \<Rightarrow> string \<Rightarrow> cg_state \<Rightarrow> (Result \<times> cg_state) option" where
  "ModifyASTPragmaPost key val s =
     Some (VISIT_CONTINUE, if key = ''timing_model'' then s\<lparr>timing_model := val\<rparr> else s)"

section \<open>Bypass networks\<close>

definition ModifyASTStmtBypassStartPost ::
  "ASTExpr \<Rightarrow> ASTExpr \<Rightarrow> cg_state \<Rightarrow> (Result \<times> cg_state) option" where
  "ModifyASTStmtBypassStartPost bypass index s =
     (let (v, s1) = Valnum s
      in do { (bypassdef_opt, s2) \<leftarrow> FindEntityDef bypass BYPASSDEF s1;
              case bypassdef_opt of None \<Rightarrow> Some (VISIT_END, s2)
              | Some bypassdef \<Rightarrow>
                do { nm \<leftarrow> node_ident s2 bypassdef;
                     index_arg \<leftarrow> GetIRStmt (Some index) s2;
                     index_st \<leftarrow> stmt_store s2 index_arg;
                     let bypass_stmt = new_IRStmt\<lparr>valnum := v, type := IRStmtBypassStart,
                           port_name := nm, args := [index_arg],
                           arg_nums := [valnum index_st]\<rparr>;
                     (_, s3) \<leftarrow> AddIRStmt (CurBB s2) bypass_stmt None s2;
                     Some (VISIT_CONTINUE, s3) } })"

definition ModifyASTStmtBypassEndPost :: "ASTExpr \<Rightarrow> cg_state \<Rightarrow> (Result \<times> cg_state) option" where
  "ModifyASTStmtBypassEndPost bypass s =
     (let (v, s1) = Valnum s
      in do { (bypassdef_opt, s2) \<leftarrow> FindEntityDef bypass BYPASSDEF s1;
              case bypassdef_opt of None \<Rightarrow> Some (VISIT_END, s2)
              | Some bypassdef \<Rightarrow>
                do { nm \<leftarrow> node_ident s2 bypassdef;
                     let bypass_stmt = new_IRStmt\<lparr>valnum := v, type := IRStmtBypassEnd,
                           port_name := nm\<rparr>;
                     (_, s3) \<leftarrow> AddIRStmt (CurBB s2) bypass_stmt None s2;
                     Some (VISIT_CONTINUE, s3) } })"

definition ModifyASTStmtBypassWritePost ::
  "ASTExpr \<Rightarrow> ASTExpr \<Rightarrow> cg_state \<Rightarrow> (Result \<times> cg_state) option" where
  "ModifyASTStmtBypassWritePost bypass val s =
     (let (v, s1) = Valnum s
      in do { (bypassdef_opt, s2) \<leftarrow> FindEntityDef bypass BYPASSDEF s1;
              case bypassdef_opt of None \<Rightarrow> Some (VISIT_END, s2)
              | Some bypassdef \<Rightarrow>
                do { nm \<leftarrow> node_ident s2 bypassdef;
                     value_arg \<leftarrow> GetIRStmt (Some val) s2;
                     value_st \<leftarrow> stmt_store s2 value_arg;
                     let bypass_stmt = new_IRStmt\<lparr>valnum := v, type := IRStmtBypassWrite,
                           port_name := nm, args := [value_arg],
                           arg_nums := [valnum value_st], width := width value_st\<rparr>;
                     (_, s3) \<leftarrow> AddIRStmt (CurBB s2) bypass_stmt None s2;
                     Some (VISIT_CONTINUE, s3) } })"

section \<open>Removal of unreachable BBs\<close>

text \<open>
  Modelled from the spec: \<open>IRBB::Succs\<close> is defined outside codegen.cc. Section 3.2: the
  successors of a BB are the targets of its conditional branches, jumps and spawns;
  the targets of a phi are not successors.
\<close>

definition Succs :: "cg_state \<Rightarrow> nat \<Rightarrow> nat list option" where
  "Succs s b =
     do { B \<leftarrow> bb_store s b;
          sts \<leftarrow> those (map (stmt_store s) (stmts B));
          Some (concat (map (\<lambda>st. if type st = IRStmtIf \<or> type st = IRStmtJmp \<or>
                                       type st = IRStmtSpawn
                                    then targets st else []) sts)) }"

text \<open>\<open>MarkSuccs\<close> is a depth-first search; the set \<open>set<IRBB*>\<close> is a sorted list. The
  recursion is bounded by fuel, one unit per call; \<open>None\<close> says that the fuel ran out
  or that a dangling BB pointer was dereferenced.\<close>

fun MarkSuccs :: "nat \<Rightarrow> cg_state \<Rightarrow> nat list \<Rightarrow> nat \<Rightarrow> nat list option"
and MarkSuccs_loop :: "nat \<Rightarrow> cg_state \<Rightarrow> nat list \<Rightarrow> nat list \<Rightarrow> nat list option" where
  "MarkSuccs 0 s bb_set root = None"
| "MarkSuccs (Suc n) s bb_set root =
     (if root \<in> set bb_set then Some bb_set
      else do { succs \<leftarrow> Succs s root;
                MarkSuccs_loop n s (set_insert root bb_set) succs })"
| "MarkSuccs_loop n s bb_set [] = Some bb_set"
| "MarkSuccs_loop n s bb_set (bb # rest) =
     do { bb_set1 \<leftarrow> MarkSuccs n s bb_set bb;
          MarkSuccs_loop n s bb_set1 rest }"

text \<open>The loop of \<open>FilterPhiInputs\<close> over the argument index \<open>i\<close>; an index beyond the
  end of a vector that the loop reads is \<open>None\<close>.\<close>

fun filter_phi_inputs ::
  "IRStmt \<Rightarrow> nat list \<Rightarrow> nat list
     \<Rightarrow> (nat list \<times> string list \<times> nat list \<times> int list) option" where
  "filter_phi_inputs phi [] reachable = Some ([], [], [], [])"
| "filter_phi_inputs phi (i # is) reachable =
     (if length (targets phi) \<le> i then None
      else if targets phi ! i \<in> set reachable then
        (if length (target_names phi) \<le> i \<or> length (arg_nums phi) \<le> i then None
         else do { (new_targets, new_target_names, new_args, new_arg_nums)
                     \<leftarrow> filter_phi_inputs phi is reachable;
                   Some (targets phi ! i # new_targets, target_names phi ! i # new_target_names,
                         args phi ! i # new_args, arg_nums phi ! i # new_arg_nums) })
      else filter_phi_inputs phi is reachable)"

definition FilterPhiInputs :: "IRStmt \<Rightarrow> nat list \<Rightarrow> IRStmt option" where
  "FilterPhiInputs phi reachable =
     do { (new_targets, new_target_names, new_args, new_arg_nums)
            \<leftarrow> filter_phi_inputs phi [0 ..< length (args phi)] reachable;
          Some (phi\<lparr>targets := new_targets, target_names := new_target_names,
                    args := new_args, arg_nums := new_arg_nums\<rparr>) }"

text \<open>The first loop of \<open>RemoveUnreachableBBsAndPhis\<close>: every entry BB and the target of
  every spawn statement of every BB is a root.\<close>

fun mark_spawns :: "nat \<Rightarrow> cg_state \<Rightarrow> nat list \<Rightarrow> nat list \<Rightarrow> nat list option" where
  "mark_spawns fuel s [] reachable = Some reachable"
| "mark_spawns fuel s (a # as) reachable =
     do { st \<leftarrow> stmt_store s a;
          r1 \<leftarrow> (if type st = IRStmtSpawn
                  then (case targets st of [] \<Rightarrow> None
                        | t # _ \<Rightarrow> MarkSuccs fuel s reachable t)
                  else Some reachable);
          mark_spawns fuel s as r1 }"

fun mark_roots :: "nat \<Rightarrow> cg_state \<Rightarrow> nat list \<Rightarrow> nat list \<Rightarrow> nat list option" where
  "mark_roots fuel s [] reachable = Some reachable"
| "mark_roots fuel s (b # bs) reachable =
     do { B \<leftarrow> bb_store s b;
          r1 \<leftarrow> (if is_entry B then MarkSuccs fuel s reachable b else Some reachable);
          r2 \<leftarrow> mark_spawns fuel s (stmts B) r1;
          mark_roots fuel s bs r2 }"

text \<open>The second loop: the phis of all BBs lose the inputs that come from BBs outside
  the set.\<close>

fun filter_phis :: "nat list \<Rightarrow> nat list \<Rightarrow> cg_state \<Rightarrow> cg_state option" where
  "filter_phis [] reachable s = Some s"
| "filter_phis (a # as) reachable s =
     do { st \<leftarrow> stmt_store s a;
          s1 \<leftarrow> (if type st \<noteq> IRStmtPhi then Some s
                  else do { st1 \<leftarrow> FilterPhiInputs st reachable;
                            Some (set_stmt a st1 s) });
          filter_phis as reachable s1 }"

definition all_stmts :: "cg_state \<Rightarrow> nat list \<Rightarrow> nat list option" where
  "all_stmts s bs = map_option (\<lambda>Bs. concat (map stmts Bs)) (those (map (bb_store s) bs))"

text \<open>The third loop keeps the BBs of the set, in order; the other BBs and their
  statements are destroyed with the old vector.\<close>

definition RemoveUnreachableBBsAndPhis :: "nat \<Rightarrow> cg_state \<Rightarrow> cg_state option" where
  "RemoveUnreachableBBsAndPhis fuel s =
     do { reachable \<leftarrow> mark_roots fuel s (bbs s) [];
          phis \<leftarrow> all_stmts s (bbs s);
          s1 \<leftarrow> filter_phis phis reachable s;
          let filtered_bbs = filter (\<lambda>b. b \<in> set reachable) (bbs s1);
          let dead_bbs = filter (\<lambda>b. b \<notin> set reachable) (bbs s1);
          dead_stmts \<leftarrow> all_stmts s1 dead_bbs;
          Some (s1\<lparr>bbs := filtered_bbs,
                   bb_store := (\<lambda>b. if b \<in> set dead_bbs then None else bb_store s1 b),
                   stmt_store := (\<lambda>a. if a \<in> set dead_stmts then None else stmt_store s1 a)\<rparr>) }"

section \<open>Concrete inputs\<close>

text \<open>A context with one function frame; an entry function with an empty body and a
  function that is not an entry; the state after the pre-hook of the entry function.\<close>

definition wit_ctx :: cg_state where
  "wit_ctx = CodeGenContext 1 [new_FuncFrame] (\<lambda>_. new_ASTTypeInfo)"

definition wit_fd_entry :: ASTFunctionDef where
  "wit_fd_entry = \<lparr> fd_name = ''f'', fd_is_entry = True, fd_block = [] \<rparr>"

definition wit_fd_plain :: ASTFunctionDef where
  "wit_fd_plain = \<lparr> fd_name = ''g'', fd_is_entry = False, fd_block = [ASTStmtKill] \<rparr>"

definition wit_in_f :: cg_state where
  "wit_in_f = (case ModifyASTFunctionDefPre wit_fd_entry wit_ctx of
                 Some (_, s) \<Rightarrow> s | None \<Rightarrow> wit_ctx)"

text \<open>Inside a timing block.\<close>

definition wit_in_timing :: cg_state where
  "wit_in_timing = (case ModifyASTStmtTimingPre wit_in_f of
                      Some (_, s) \<Rightarrow> s | None \<Rightarrow> wit_in_f)"

text \<open>Expressions: the constant \<open>1\<close> of width 1, an array read \<open>a[1]\<close>, and the
  comparison \<open>a[1] == 1\<close>; the state in which the constant has been lowered.\<close>

definition wit_ty :: ASTTypeInfo where
  "wit_ty = \<lparr> t_width = 1, is_port = False, is_chan = False, array_size = 0 \<rparr>"

definition wit_const :: ASTExpr where
  "wit_const = ASTExpr (SrcExpr 1) CONST_E [] None 1 True wit_ty None None"

definition wit_array_ref :: ASTExpr where
  "wit_array_ref =
     ASTExpr (SrcExpr 3) ARRAY_REF
       [ASTExpr (SrcExpr 2) VAR [] None 0 False wit_ty (Some 7) None, wit_const]
       None 0 False wit_ty None None"

definition wit_cmp :: ASTExpr where
  "wit_cmp = ASTExpr (SrcExpr 4) EQ [wit_array_ref, wit_const] None 0 False wit_ty None None"

definition wit_const_stmt :: IRStmt where
  "wit_const_stmt = new_IRStmt\<lparr>valnum := 1, op := IRStmtOpConst, width := 1,
                                constant := 1, has_constant := True\<rparr>"

definition wit_lowered_const :: cg_state where
  "wit_lowered_const =
     (case AddIRStmt (Some 0) wit_const_stmt (Some (SrcExpr 1)) (snd (Valnum wit_in_f)) of
        Some (_, s) \<Rightarrow> AddIRStmt_expr (Some 0) (SrcExpr 4) s | None \<Rightarrow> wit_in_f)"

text \<open>A port definition named \<open>p\<close> whose inferred type is neither a port nor a chan,
  and a read from it.\<close>

definition wit_bad_port :: ASTExpr where
  "wit_bad_port = ASTExpr (SrcExpr 5) PORTDEF [] (Some ''p'') 0 False wit_ty None None"

definition wit_bad_read :: ASTExpr where
  "wit_bad_read = ASTExpr (SrcExpr 6) PORTREAD [wit_bad_port] None 0 False wit_ty None None"

text \<open>Tokens of \<open>T { x : int; }\<close>, after the keyword \<open>type\<close>.\<close>

definition wit_typedef_toks :: "Token list" where
  "wit_typedef_toks =
     [\<lparr>tok_type = IDENT, tok_s = ''T''\<rparr>, \<lparr>tok_type = LBRACE, tok_s = ''{''\<rparr>,
      \<lparr>tok_type = IDENT, tok_s = ''x''\<rparr>, \<lparr>tok_type = COLON, tok_s = '':''\<rparr>,
      \<lparr>tok_type = IDENT, tok_s = ''int''\<rparr>, \<lparr>tok_type = SEMICOLON, tok_s = '';''\<rparr>,
      \<lparr>tok_type = RBRACE, tok_s = ''}''\<rparr>]"

text \<open>An IR program with an entry BB \<open>0\<close>, a join BB \<open>1\<close> with a phi, a BB \<open>2\<close> that
  nothing jumps to and that holds a spawn, and the spawned BB \<open>3\<close>, which jumps to the
  join. It is the shape that \<open>while (c) { break; spawn { x = e; continue; } }\<close> lowers
  to: the statements after \<open>break\<close> go to a fresh BB without predecessors.\<close>

definition wit_unreach_bbs :: "nat \<Rightarrow> IRBB option" where
  "wit_unreach_bbs =
     (\<lambda>_. None)
     (0 \<mapsto> \<lparr>label = ''f'', is_entry = True, stmts = [0, 1]\<rparr>,
      1 \<mapsto> \<lparr>label = ''while_header_1'', is_entry = False, stmts = [2, 3]\<rparr>,
      2 \<mapsto> \<lparr>label = ''unreachable_2'', is_entry = False, stmts = [4]\<rparr>,
      3 \<mapsto> \<lparr>label = ''spawn_3'', is_entry = False, stmts = [5, 6]\<rparr>)"

definition wit_phi :: IRStmt where
  "wit_phi = new_IRStmt\<lparr>valnum := 3, type := IRStmtPhi, args := [0, 5], arg_nums := [1, 6],
               targets := [0, 3], target_names := [''f'', ''spawn_3'']\<rparr>"

definition wit_unreach_stmts :: "nat \<Rightarrow> IRStmt option" where
  "wit_unreach_stmts =
     (\<lambda>_. None)
     (0 \<mapsto> new_IRStmt\<lparr>valnum := 1, op := IRStmtOpConst, constant := 0, has_constant := True\<rparr>,
      1 \<mapsto> jmp_stmt 2 1 ''while_header_1'',
      2 \<mapsto> wit_phi,
      3 \<mapsto> new_IRStmt\<lparr>valnum := 4, type := IRStmtDone\<rparr>,
      4 \<mapsto> new_IRStmt\<lparr>valnum := 5, type := IRStmtSpawn, targets := [3],
                        target_names := [''spawn_3'']\<rparr>,
      5 \<mapsto> new_IRStmt\<lparr>valnum := 6, op := IRStmtOpConst, constant := 1, has_constant := True\<rparr>,
      6 \<mapsto> jmp_stmt 7 1 ''while_header_1'')"

definition wit_unreach :: cg_state where
  "wit_unreach =
     wit_ctx\<lparr>bbs := [0, 1, 2, 3], entries := [0], next_valnum := 8,
             bb_store := wit_unreach_bbs, bb_alloc := 4,
             stmt_store := wit_unreach_stmts, stmt_alloc := 7\<rparr>"









definition wit_if_start :: cg_state where
  "wit_if_start = Bindings_Set 0 wit_const wit_lowered_const"

text \<open>The loop \<open>outer: while (1) { while (1) { continue outer; } }\<close> after
  \<open>let x = 1\<close>: the phi map and the state after \<open>while_open\<close> of the outer loop;
  and the state \<open>wit_loop\<close> at the end of the body of the outer loop. There BB 1 and
  BB 2 are header and footer of the outer loop, BB 3 is its body, BB 4 and BB 5 are
  header and footer of the inner loop, BB 6 is the body of the inner loop, from which
  \<open>continue outer\<close> has jumped to BB 1 and registered its continue edge, and BB 7
  takes what follows the \<open>continue\<close>. The inner loop has left its footer, BB 5, as
  the current BB. The let \<open>0\<close> is bound to the placeholder of the phi in the footer
  of the inner loop.\<close>

definition wit_bp :: "(nat \<times> nat) list" where
  "wit_bp = fst (the (while_open (Some ''outer'') wit_if_start))"









section \<open>Proofs: the value-number invariant\<close>

lemma map_filter_append: "List.map_filter f (xs @ ys) = List.map_filter f xs @ List.map_filter f ys"
  by (simp add: List.map_filter_def)

lemma map_filter_upd_other:
  "a \<notin> set xs \<Longrightarrow> List.map_filter (f(a \<mapsto> v)) xs = List.map_filter f xs"
  by (induction xs) (auto simp: List.map_filter_simps split: option.splits)

lemma AddIRStmt_SomeD:
  assumes "AddIRStmt bb stmt e s = Some (a, s')"
  obtains b B where "bb = Some b" "bb_store s b = Some B" "a = stmt_alloc s"
    "s' = s\<lparr>expr_to_ir_map := (case e of None \<Rightarrow> expr_to_ir_map s | Some x \<Rightarrow> (expr_to_ir_map s)(x \<mapsto> a)),
           next_valnum := (if valnum stmt \<ge> next_valnum s then int_wrap (valnum stmt + 1)
                           else next_valnum s),
           stmt_store := (stmt_store s)(a \<mapsto> stmt),
           stmt_alloc := a + 1,
           bb_store := (bb_store s)(b \<mapsto> B\<lparr>stmts := stmts B @ [a]\<rparr>)\<rparr>"
  using assms by (auto simp: AddIRStmt_def Let_def split: option.splits if_splits)

lemma bb_stmts_AddIRStmt:
  assumes "stmts_fresh s" "AddIRStmt bb stmt e s = Some (a, s')"
  shows "bb_stmts s' b = bb_stmts s b @ (if bb = Some b then [stmt] else [])"
proof -
  from assms(2) obtain b0 B0 where bb: "bb = Some b0" and B0: "bb_store s b0 = Some B0"
    and a: "a = stmt_alloc s"
    and st: "stmt_store s' = (stmt_store s)(a \<mapsto> stmt)"
    and bs: "bb_store s' = (bb_store s)(b0 \<mapsto> B0\<lparr>stmts := stmts B0 @ [a]\<rparr>)"
    by (elim AddIRStmt_SomeD) auto
  have old: "\<And>B. bb_store s b = Some B \<Longrightarrow> a \<notin> set (stmts B)"
    using assms(1) a by (auto simp: stmts_fresh_def)
  show ?thesis
  proof (cases "bb_store s b")
    case None
    then show ?thesis using bb B0 bs by (auto simp: bb_stmts_def)
  next
    case (Some B)
    show ?thesis using Some bb B0 bs st old[OF Some]
      by (auto simp: bb_stmts_def map_filter_append map_filter_upd_other List.map_filter_simps)
  qed
qed

lemma map_filter_cong_valnum:
  "(\<And>a. map_option valnum (f a) = map_option valnum (g a)) \<Longrightarrow>
   map valnum (List.map_filter f xs) = map valnum (List.map_filter g xs)"
proof (induction xs)
  case Nil
  then show ?case by (simp add: List.map_filter_simps)
next
  case (Cons x xs)
  have "map_option valnum (f x) = map_option valnum (g x)" by (rule Cons.prems)
  then show ?case using Cons
    by (cases "f x"; cases "g x") (auto simp: List.map_filter_simps)
qed

lemma prog_valnums_ir_same:
  assumes "ir_same s s'" shows "prog_valnums s' = prog_valnums s"
proof -
  have "map valnum (bb_stmts s' b) = map valnum (bb_stmts s b)" for b
  proof -
    have m: "map_option stmts (bb_store s' b) = map_option stmts (bb_store s b)"
      using assms by (simp add: ir_same_def)
    have v: "\<And>a. map_option valnum (stmt_store s' a) = map_option valnum (stmt_store s a)"
      using assms by (simp add: ir_same_def)
    show ?thesis using m map_filter_cong_valnum[of "stmt_store s'" "stmt_store s", OF v]
      by (cases "bb_store s' b"; cases "bb_store s b") (auto simp: bb_stmts_def)
  qed
  moreover have "bbs s' = bbs s" using assms by (simp add: ir_same_def)
  ultimately show ?thesis by (simp add: prog_valnums_def)
qed

lemma cg_inv_ir_same: "cg_inv s \<Longrightarrow> ir_same s s' \<Longrightarrow> cg_inv s'"
  unfolding cg_inv_def
proof (intro conjI)
  assume a: "stmts_fresh s \<and> bbs_owned s \<and> valnums_below s" and b: "ir_same s s'"
  show "stmts_fresh s'"
    unfolding stmts_fresh_def
  proof (intro allI impI)
    fix b B assume B: "bb_store s' b = Some B"
    from b have "map_option stmts (bb_store s' b) = map_option stmts (bb_store s b)"
      by (simp add: ir_same_def)
    with B obtain B0 where "bb_store s b = Some B0" "stmts B0 = stmts B" by (cases "bb_store s b") auto
    with a b show "\<forall>a\<in>set (stmts B). a < stmt_alloc s'"
      by (auto simp: stmts_fresh_def ir_same_def)
  qed
  show "bbs_owned s'"
    unfolding bbs_owned_def
  proof (intro allI conjI impI)
    fix b2
    have e: "map_option stmts (bb_store s' b2) = map_option stmts (bb_store s b2)"
      using b by (simp add: ir_same_def)
    { assume "bb_store s' b2 \<noteq> None"
      with e have "bb_store s b2 \<noteq> None" by (cases "bb_store s b2") auto
      with a b show "b2 \<in> set (bbs s')" by (auto simp: bbs_owned_def ir_same_def) }
    { assume "bb_alloc s' \<le> b2"
      with a b have "bb_store s b2 = None" by (auto simp: bbs_owned_def ir_same_def)
      with e show "bb_store s' b2 = None" by (cases "bb_store s' b2") auto }
  qed
  show "valnums_below s'"
    using a b prog_valnums_ir_same[OF b] by (auto simp: valnums_below_def ir_same_def)
qed

lemma cg_inv_init: "cg_inv (CodeGenContext seed frames let_types)"
  by (simp add: cg_inv_def stmts_fresh_def bbs_owned_def valnums_below_def
      CodeGenContext_def prog_valnums_def)

lemma prog_valnums_next_valnum_upd [simp]:
  "prog_valnums (s\<lparr>next_valnum := n\<rparr>) = prog_valnums s"
  by (simp add: prog_valnums_def bb_stmts_def)

lemma cg_inv_Valnum: "cg_inv s \<Longrightarrow> cg_inv (snd (Valnum s))"
  by (auto simp: cg_inv_def Valnum_def stmts_fresh_def bbs_owned_def valnums_below_def)

lemma cg_inv_AddBB: assumes "cg_inv s" shows "cg_inv (snd (AddBB p s))"
proof -
  obtain b s' where r: "AddBB p s = (b, s')" by (cases "AddBB p s")
  have b: "b = bb_alloc s" and
    s': "s' = s\<lparr>gensym := gensym s + 1,
               bb_store := (bb_store s)(b \<mapsto> new_IRBB\<lparr>label := fst (GenSym p s)\<rparr>),
               bb_alloc := b + 1, bbs := bbs s @ [b]\<rparr>"
    using r by (auto simp: AddBB_def GenSym_def Let_def)
  have none: "bb_store s b = None" using assms b by (auto simp: cg_inv_def bbs_owned_def)
  have bs: "bb_stmts s' x = bb_stmts s x" for x
    using none by (auto simp: s' bb_stmts_def new_IRBB_def List.map_filter_simps)
  have "bb_stmts s b = []"
    using none by (simp add: bb_stmts_def List.map_filter_simps)
  then have pv: "prog_valnums s' = prog_valnums s"
    using bs by (simp add: prog_valnums_def) (simp add: s')
  have 1: "stmts_fresh s'" using assms none
    by (auto simp: cg_inv_def stmts_fresh_def new_IRBB_def s' split: if_splits)
  have 2: "bbs_owned s'" using assms none b
    by (auto simp: cg_inv_def bbs_owned_def s' split: if_splits)
  have 3: "valnums_below s'" using assms pv
    by (auto simp: cg_inv_def valnums_below_def) (simp add: s')
  show ?thesis using 1 2 3 unfolding r by (simp add: cg_inv_def)
qed

lemma prog_valnums_AddIRStmt:
  assumes "stmts_fresh s" "bbs_owned s" "AddIRStmt bb st e s = Some (a, s')"
  shows "set (prog_valnums s') = insert (valnum st) (set (prog_valnums s))"
proof -
  from assms(3) obtain b B where bb: "bb = Some b" and B: "bb_store s b = Some B"
    and bbs: "bbs s' = bbs s"
    by (elim AddIRStmt_SomeD) auto
  have mem: "b \<in> set (bbs s)" using assms(2) B by (auto simp: bbs_owned_def)
  have "set (prog_valnums s') = (\<Union>x\<in>set (bbs s). set (map valnum (bb_stmts s' x)))"
    by (simp add: prog_valnums_def bbs)
  also have "\<dots> = (\<Union>x\<in>set (bbs s). set (map valnum (bb_stmts s x)) \<union> (if x = b then {valnum st} else {}))"
  proof -
    have "set (map valnum (bb_stmts s' x)) =
          set (map valnum (bb_stmts s x)) \<union> (if x = b then {valnum st} else {})" for x
      by (simp add: bb_stmts_AddIRStmt[OF assms(1) assms(3)] bb)
    then show ?thesis by simp
  qed
  also have "\<dots> = insert (valnum st) (set (prog_valnums s))"
    using mem by (auto simp: prog_valnums_def split: if_splits)
  finally show ?thesis .
qed

lemma int_wrap_id: "INT_MIN \<le> x \<Longrightarrow> x \<le> INT_MAX \<Longrightarrow> int_wrap x = x"
  by (simp add: int_wrap_def INT_MIN_def INT_MAX_def)

lemma next_valnum_AddIRStmt:
  assumes "AddIRStmt bb st e s = Some (a, s')" "INT_MIN \<le> valnum st" "valnum st < INT_MAX"
  shows "next_valnum s' = max (next_valnum s) (valnum st + 1)"
proof -
  have "int_wrap (valnum st + 1) = valnum st + 1"
    using assms(2,3) by (intro int_wrap_id) (simp_all add: INT_MIN_def)
  then show ?thesis using assms(1) by (elim AddIRStmt_SomeD) auto
qed

lemma cg_inv_AddIRStmt:
  assumes "cg_inv s" "AddIRStmt bb st e s = Some (a, s')"
    "INT_MIN \<le> valnum st" "valnum st < INT_MAX"
  shows "cg_inv s'"
proof -
  have f: "stmts_fresh s" and o: "bbs_owned s" and v: "valnums_below s"
    using assms(1) by (auto simp: cg_inv_def)
  have "stmts_fresh s'" using f assms(2)
    by (elim AddIRStmt_SomeD) (auto simp: stmts_fresh_def split: if_splits, fastforce+)
  moreover have "bbs_owned s'" using o assms(2)
    by (elim AddIRStmt_SomeD) (auto simp: bbs_owned_def split: if_splits)
  moreover have "valnums_below s'"
    using v prog_valnums_AddIRStmt[OF f o assms(2)] next_valnum_AddIRStmt[OF assms(2,3,4)]
    by (auto simp: valnums_below_def)
  ultimately show ?thesis by (simp add: cg_inv_def)
qed

lemma cg_reach_inv: "cg_reach s \<Longrightarrow> cg_inv s"
  by (induction rule: cg_reach.induct)
     (auto intro: cg_inv_init cg_inv_Valnum cg_inv_AddBB cg_inv_AddIRStmt cg_inv_ir_same)

lemma Max_insert_below:
  fixes n :: int
  assumes "finite A" "\<forall>v \<in> A. v < n" "n - 1 \<in> A"
  shows "Max A = n - 1"
  using assms by (intro Max_eqI) auto

text \<open>
  Claim C7. In every state that the operations of the context reach without an \<open>int\<close>
  overflow, the program's \<open>next_valnum\<close> is strictly greater than the value number of
  every statement of the program. An insertion through \<open>AddIRStmt\<close> into an existing
  BB, of a statement whose value number is an \<open>int\<close> below \<open>INT_MAX\<close>, succeeds, adds
  that value number to the numbers in use, sets \<open>next_valnum\<close> to the larger of its old
  value and the statement's number plus one, and so keeps it strictly greater than
  every number in use. After the insertion \<open>next_valnum\<close> is the largest number in use
  plus one exactly when the statement carries at least the number that precedes the
  old \<open>next_valnum\<close> (the number that \<open>Valnum\<close> handed out last, or a larger one), or
  the equation held before the insertion.
\<close>

theorem next_valnum_above_all_valnums:
  assumes "cg_reach s"
  shows "(\<forall>v \<in> set (prog_valnums s). v < next_valnum s) \<and>
         (\<forall>b B (st :: IRStmt) e.
            bb_store s b = Some B \<and> INT_MIN \<le> valnum st \<and> valnum st < INT_MAX \<longrightarrow>
            (\<exists>s'. AddIRStmt (Some b) st e s = Some (stmt_alloc s, s') \<and>
                  cg_reach s' \<and>
                  next_valnum s' = max (next_valnum s) (valnum st + 1) \<and>
                  set (prog_valnums s') = insert (valnum st) (set (prog_valnums s)) \<and>
                  (\<forall>v \<in> set (prog_valnums s'). v < next_valnum s') \<and>
                  (next_valnum s' = Max (set (prog_valnums s')) + 1 \<longleftrightarrow>
                     next_valnum s \<le> valnum st + 1 \<or>
                     (\<exists>m \<in> set (prog_valnums s). next_valnum s = m + 1))))"
proof (intro conjI allI impI)
  have inv: "cg_inv s" using assms by (rule cg_reach_inv)
  then show "\<forall>v \<in> set (prog_valnums s). v < next_valnum s"
    by (simp add: cg_inv_def valnums_below_def)
  fix b B and st :: IRStmt and e
  assume h: "bb_store s b = Some B \<and> INT_MIN \<le> valnum st \<and> valnum st < INT_MAX"
  then have B: "bb_store s b = Some B" and lo: "INT_MIN \<le> valnum st" and hi: "valnum st < INT_MAX"
    by simp_all
  obtain s' where add: "AddIRStmt (Some b) st e s = Some (stmt_alloc s, s')"
    using B by (simp add: AddIRStmt_def Let_def)
  have r: "cg_reach s'" using assms add lo hi by (rule reach_AddIRStmt)
  then have "cg_inv s'" by (rule cg_reach_inv)
  then have below: "\<forall>v \<in> set (prog_valnums s'). v < next_valnum s'"
    by (simp add: cg_inv_def valnums_below_def)
  have set': "set (prog_valnums s') = insert (valnum st) (set (prog_valnums s))"
    using inv add by (intro prog_valnums_AddIRStmt) (simp_all add: cg_inv_def)
  have nv: "next_valnum s' = max (next_valnum s) (valnum st + 1)"
    using add lo hi by (rule next_valnum_AddIRStmt)
  have old: "\<forall>v \<in> set (prog_valnums s). v < next_valnum s"
    using inv by (simp add: cg_inv_def valnums_below_def)
  have eq: "next_valnum s' = Max (set (prog_valnums s')) + 1 \<longleftrightarrow>
              next_valnum s \<le> valnum st + 1 \<or> (\<exists>m \<in> set (prog_valnums s). next_valnum s = m + 1)"
  proof
    assume c: "next_valnum s \<le> valnum st + 1 \<or> (\<exists>m \<in> set (prog_valnums s). next_valnum s = m + 1)"
    have "next_valnum s' - 1 \<in> set (prog_valnums s')"
      using c set' nv old by (auto simp: max_def split: if_splits)
    then have "Max (set (prog_valnums s')) = next_valnum s' - 1"
      using below by (intro Max_insert_below) simp_all
    then show "next_valnum s' = Max (set (prog_valnums s')) + 1" by simp
  next
    assume e: "next_valnum s' = Max (set (prog_valnums s')) + 1"
    have "Max (set (prog_valnums s')) \<in> set (prog_valnums s')"
      by (rule Max_in) (simp_all add: set')
    then have "next_valnum s' - 1 \<in> insert (valnum st) (set (prog_valnums s))"
      using e set' by simp
    then have "next_valnum s' - 1 = valnum st \<or> next_valnum s' - 1 \<in> set (prog_valnums s)"
      by simp
    then show "next_valnum s \<le> valnum st + 1 \<or> (\<exists>m \<in> set (prog_valnums s). next_valnum s = m + 1)"
    proof
      assume "next_valnum s' - 1 = valnum st"
      then show ?thesis using nv by (simp add: max_def split: if_splits)
    next
      assume m: "next_valnum s' - 1 \<in> set (prog_valnums s)"
      then have "next_valnum s' - 1 < next_valnum s" using old by blast
      then have "next_valnum s' = next_valnum s" using nv by (simp add: max_def split: if_splits)
      then have "next_valnum s = (next_valnum s' - 1) + 1" by simp
      then show ?thesis using m by blast
    qed
  qed
  show "\<exists>s'. AddIRStmt (Some b) st e s = Some (stmt_alloc s, s') \<and>
                  cg_reach s' \<and>
                  next_valnum s' = max (next_valnum s) (valnum st + 1) \<and>
                  set (prog_valnums s') = insert (valnum st) (set (prog_valnums s)) \<and>
                  (\<forall>v \<in> set (prog_valnums s'). v < next_valnum s') \<and>
                  (next_valnum s' = Max (set (prog_valnums s')) + 1 \<longleftrightarrow>
                     next_valnum s \<le> valnum st + 1 \<or>
                     (\<exists>m \<in> set (prog_valnums s). next_valnum s = m + 1))"
    using add r nv set' below eq by blast
qed

lemma wit_s0_reach: "cg_reach wit_s0"
  unfolding wit_s0_def
  by (intro reach_Valnum reach_AddBB reach_init)
     (simp add: AddBB_def GenSym_def CodeGenContext_def Let_def INT_MAX_def)

lemma wit_s0_facts:
  "\<exists>B. bb_store wit_s0 0 = Some B"
  "next_valnum wit_s0 = 2" "stmt_alloc wit_s0 = 0" "prog_valnums wit_s0 = []"
  by (simp_all add: wit_s0_def Valnum_def AddBB_def GenSym_def CodeGenContext_def Let_def
      prog_valnums_def bb_stmts_def List.map_filter_simps new_IRBB_def)

theorem next_valnum_above_all_valnums_witness:
  "cg_reach wit_s0 \<and> next_valnum wit_s0 = 2 \<and> prog_valnums wit_s0 = [] \<and>
   (\<exists>s'. AddIRStmt (Some 0) (new_IRStmt\<lparr>valnum := 5\<rparr>) None wit_s0 = Some (0, s') \<and>
         next_valnum s' = 6 \<and> set (prog_valnums s') = {5} \<and>
         next_valnum s' = Max (set (prog_valnums s')) + 1)"
proof -
  have lo: "INT_MIN \<le> valnum (new_IRStmt\<lparr>valnum := 5\<rparr>)"
    and hi: "valnum (new_IRStmt\<lparr>valnum := 5\<rparr>) < INT_MAX"
    by (simp_all add: INT_MIN_def INT_MAX_def)
  obtain B where B: "bb_store wit_s0 0 = Some B" using wit_s0_facts(1) by blast
  from next_valnum_above_all_valnums[OF wit_s0_reach] B lo hi
  obtain s' where "AddIRStmt (Some 0) (new_IRStmt\<lparr>valnum := 5\<rparr>) None wit_s0
                     = Some (stmt_alloc wit_s0, s')"
    "next_valnum s' = max (next_valnum wit_s0) (valnum (new_IRStmt\<lparr>valnum := 5\<rparr>) + 1)"
    "set (prog_valnums s') = insert (valnum (new_IRStmt\<lparr>valnum := 5\<rparr>)) (set (prog_valnums wit_s0))"
    "next_valnum s' = Max (set (prog_valnums s')) + 1 \<longleftrightarrow>
       next_valnum wit_s0 \<le> valnum (new_IRStmt\<lparr>valnum := 5\<rparr>) + 1 \<or>
       (\<exists>m \<in> set (prog_valnums wit_s0). next_valnum wit_s0 = m + 1)"
    by blast
  then have "AddIRStmt (Some 0) (new_IRStmt\<lparr>valnum := 5\<rparr>) None wit_s0 = Some (0, s') \<and>
         next_valnum s' = 6 \<and> set (prog_valnums s') = {5} \<and>
         next_valnum s' = Max (set (prog_valnums s')) + 1"
    by (simp add: wit_s0_facts)
  then show ?thesis using wit_s0_reach wit_s0_facts by blast
qed

text \<open>
  Two insertions into the state \<open>wit_s0\<close>, whose \<open>next_valnum\<close> is \<open>2\<close> and whose
  program is empty. A statement numbered \<open>-7\<close> leaves \<open>next_valnum\<close> at \<open>2\<close>, which
  is not the largest number in use plus one. A statement numbered \<open>INT_MAX\<close> makes the
  sum overflow: \<open>next_valnum\<close> becomes \<open>INT_MIN\<close>, below the number in use.
\<close>

theorem next_valnum_not_always_max_plus_one:
  "cg_reach wit_s0 \<and> next_valnum wit_s0 = 2 \<and> prog_valnums wit_s0 = [] \<and>
   (\<exists>s'. AddIRStmt (Some 0) (new_IRStmt\<lparr>valnum := - 7\<rparr>) None wit_s0 = Some (0, s') \<and>
         prog_valnums s' = [- 7] \<and> next_valnum s' = 2 \<and>
         Max (set (prog_valnums s')) + 1 = - 6) \<and>
   (\<exists>s'. AddIRStmt (Some 0) (new_IRStmt\<lparr>valnum := INT_MAX\<rparr>) None wit_s0 = Some (0, s') \<and>
         prog_valnums s' = [2147483647] \<and> next_valnum s' = - 2147483648)"
proof -
  have 1: "\<exists>s'. AddIRStmt (Some 0) (new_IRStmt\<lparr>valnum := - 7\<rparr>) None wit_s0 = Some (0, s') \<and>
         prog_valnums s' = [- 7] \<and> next_valnum s' = 2 \<and>
         Max (set (prog_valnums s')) + 1 = - 6"
    by (simp add: wit_s0_def AddIRStmt_def Valnum_def AddBB_def GenSym_def CodeGenContext_def
        Let_def prog_valnums_def bb_stmts_def List.map_filter_simps new_IRBB_def)
  have 2: "\<exists>s'. AddIRStmt (Some 0) (new_IRStmt\<lparr>valnum := INT_MAX\<rparr>) None wit_s0 = Some (0, s') \<and>
         prog_valnums s' = [2147483647] \<and> next_valnum s' = - 2147483648"
    by (simp add: wit_s0_def AddIRStmt_def Valnum_def AddBB_def GenSym_def CodeGenContext_def
        Let_def prog_valnums_def bb_stmts_def List.map_filter_simps new_IRBB_def
        INT_MAX_def int_wrap_def)
  show ?thesis using wit_s0_reach wit_s0_facts(2,4) 1 2 by blast
qed

section \<open>Proofs: visits keep the existing IR\<close>








section \<open>Proofs: function definitions, stages, kill-if\<close>

lemma VerifyNoSideEffects_char:
  "VerifyNoSideEffects e s =
     (if \<forall>n \<in> set (subexprs e). e_op n \<noteq> STMTBLOCK \<and> e_op n \<noteq> ARRAY_REF
      then (True, s) else (False, Error side_effect_msg s))"
  "VerifyNoSideEffects_ops es s =
     (if \<forall>n \<in> set (subexprs_list es). e_op n \<noteq> STMTBLOCK \<and> e_op n \<noteq> ARRAY_REF
      then (True, s) else (False, Error side_effect_msg s))"
  by (induction e s and es s rule: VerifyNoSideEffects_VerifyNoSideEffects_ops.induct)
     (auto split: prod.splits bool.splits)

text \<open>
  Claim C6. With the condition lowered (it has an IR statement) and a current BB, the
  kill-if hook appends a \<open>KillIf\<close> statement whose single argument is the IR value of
  the condition if and only if no node of the condition's subtree is a \<open>STMTBLOCK\<close>
  or an \<open>ARRAY_REF\<close>; otherwise it reports the error, answers \<open>VISIT_END\<close> and leaves
  the statements and BBs as they were.
\<close>

theorem kill_if_lowered_iff_no_side_effects:
  assumes "GetIRStmt (Some condition) s = Some c"
      and "stmt_store s c = Some cond_stmt"
      and "CurBB s = Some b"
      and "bb_store s b = Some B"
  shows "((\<forall>n \<in> set (subexprs condition). e_op n \<noteq> STMTBLOCK \<and> e_op n \<noteq> ARRAY_REF) \<longleftrightarrow>
          (\<exists>s'. ModifyASTStmtKillIfPost condition s = Some (VISIT_CONTINUE, s') \<and>
                bb_store s' b = Some (B\<lparr>stmts := stmts B @ [stmt_alloc s]\<rparr>) \<and>
                stmt_store s' (stmt_alloc s) =
                  Some (new_IRStmt\<lparr>valnum := next_valnum s, type := IRStmtKillIf,
                                   args := [c], arg_nums := [valnum cond_stmt]\<rparr>))) \<and>
         ((\<exists>n \<in> set (subexprs condition). e_op n = STMTBLOCK \<or> e_op n = ARRAY_REF) \<longrightarrow>
          ModifyASTStmtKillIfPost condition s = Some (VISIT_END, Error side_effect_msg s) \<and>
          bb_store (Error side_effect_msg s) = bb_store s \<and>
          stmt_store (Error side_effect_msg s) = stmt_store s \<and>
          errors (Error side_effect_msg s) = errors s @ [side_effect_msg])"
proof (cases "\<forall>n \<in> set (subexprs condition). e_op n \<noteq> STMTBLOCK \<and> e_op n \<noteq> ARRAY_REF")
  case True
  then have v: "VerifyNoSideEffects condition s = (True, s)"
    by (simp add: VerifyNoSideEffects_char)
  show ?thesis using True assms
    by (auto simp: ModifyASTStmtKillIfPost_def v Valnum_def GetIRStmt_def stmt_at_def CurBB_def
        AddIRStmt_def Let_def)
next
  case False
  then have v: "VerifyNoSideEffects condition s = (False, Error side_effect_msg s)"
    by (simp add: VerifyNoSideEffects_char)
  show ?thesis using False
    by (auto simp: ModifyASTStmtKillIfPost_def v Error_def)
qed

text \<open>
  Claim C4. A function that is not an entry is skipped: its children are not visited
  and the state does not change. For an entry function the pre-hook adds one BB,
  labelled with the function's name, marked as entry, registered on the entry list and
  made current; the post-hook appends a \<open>Done\<close> statement to the current BB; an entry
  function with an empty body yields one new BB with that label holding only \<open>Done\<close>.
\<close>

theorem function_def_lowering:
  "(\<not> fd_is_entry node \<longrightarrow> ModifyASTFunctionDef visit node s = Some (True, s)) \<and>
   (fd_is_entry node \<longrightarrow>
      (\<exists>s1. ModifyASTFunctionDefPre node s = Some (VISIT_CONTINUE, s1) \<and>
            bbs s1 = bbs s @ [bb_alloc s] \<and>
            bb_store s1 (bb_alloc s) =
              Some \<lparr>label = fd_name node, is_entry = True, stmts = []\<rparr> \<and>
            (\<forall>b. b \<noteq> bb_alloc s \<longrightarrow> bb_store s1 b = bb_store s b) \<and>
            stmt_store s1 = stmt_store s \<and>
            entries s1 = entries s @ [bb_alloc s] \<and>
            CurBB s1 = Some (bb_alloc s))) \<and>
   (fd_is_entry node \<and> CurBB s = Some b \<and> bb_store s b = Some B \<longrightarrow>
      (\<exists>s2. ModifyASTFunctionDefPost node s = Some (VISIT_CONTINUE, s2) \<and>
            bb_store s2 b = Some (B\<lparr>stmts := stmts B @ [stmt_alloc s]\<rparr>) \<and>
            stmt_store s2 (stmt_alloc s) =
              Some (new_IRStmt\<lparr>valnum := next_valnum s, type := IRStmtDone\<rparr>))) \<and>
   (fd_is_entry node \<and> fd_block node = [] \<longrightarrow>
      (\<exists>s3. ModifyASTFunctionDef visit node s = Some (True, s3) \<and>
            bbs s3 = bbs s @ [bb_alloc s] \<and>
            map_option label (bb_store s3 (bb_alloc s)) = Some (fd_name node) \<and>
            map_option is_entry (bb_store s3 (bb_alloc s)) = Some True \<and>
            entries s3 = entries s @ [bb_alloc s] \<and>
            bb_stmts s3 (bb_alloc s) =
              [new_IRStmt\<lparr>valnum := next_valnum s, type := IRStmtDone\<rparr>]))"
proof (intro conjI impI)
  assume "\<not> fd_is_entry node"
  then show "ModifyASTFunctionDef visit node s = Some (True, s)"
    by (simp add: ModifyASTFunctionDef_def ModifyASTFunctionDefPre_def
        ModifyASTFunctionDefPost_def)
next
  assume "fd_is_entry node"
  then show "\<exists>s1. ModifyASTFunctionDefPre node s = Some (VISIT_CONTINUE, s1) \<and>
            bbs s1 = bbs s @ [bb_alloc s] \<and>
            bb_store s1 (bb_alloc s) =
              Some \<lparr>label = fd_name node, is_entry = True, stmts = []\<rparr> \<and>
            (\<forall>b. b \<noteq> bb_alloc s \<longrightarrow> bb_store s1 b = bb_store s b) \<and>
            stmt_store s1 = stmt_store s \<and>
            entries s1 = entries s @ [bb_alloc s] \<and>
            CurBB s1 = Some (bb_alloc s)"
    by (simp add: ModifyASTFunctionDefPre_def AddBB_def GenSym_def Let_def set_bb_def
        AddEntry_def SetCurBB_def CurBB_def new_IRBB_def)
next
  assume "fd_is_entry node \<and> CurBB s = Some b \<and> bb_store s b = Some B"
  then show "\<exists>s2. ModifyASTFunctionDefPost node s = Some (VISIT_CONTINUE, s2) \<and>
            bb_store s2 b = Some (B\<lparr>stmts := stmts B @ [stmt_alloc s]\<rparr>) \<and>
            stmt_store s2 (stmt_alloc s) =
              Some (new_IRStmt\<lparr>valnum := next_valnum s, type := IRStmtDone\<rparr>)"
    by (simp add: ModifyASTFunctionDefPost_def Valnum_def CurBB_def AddIRStmt_def Let_def)
next
  assume "fd_is_entry node \<and> fd_block node = []"
  then show "\<exists>s3. ModifyASTFunctionDef visit node s = Some (True, s3) \<and>
            bbs s3 = bbs s @ [bb_alloc s] \<and>
            map_option label (bb_store s3 (bb_alloc s)) = Some (fd_name node) \<and>
            map_option is_entry (bb_store s3 (bb_alloc s)) = Some True \<and>
            entries s3 = entries s @ [bb_alloc s] \<and>
            bb_stmts s3 (bb_alloc s) =
              [new_IRStmt\<lparr>valnum := next_valnum s, type := IRStmtDone\<rparr>]"
    by (simp add: ModifyASTFunctionDef_def ModifyASTFunctionDefPre_def
        ModifyASTFunctionDefPost_def AddBB_def GenSym_def Let_def set_bb_def
        AddEntry_def SetCurBB_def CurBB_def new_IRBB_def Valnum_def AddIRStmt_def
        bb_stmts_def List.map_filter_simps)
qed

text \<open>
  Claim C5. With an empty timing stack the stage hook reports an error and emits
  nothing. With a timing block open it appends exactly two timing barriers to the
  current BB, the first at offset \<open>last_stage\<close>, the second at the offset of the stage
  statement, and sets \<open>last_stage\<close> to that offset.
\<close>

theorem stage_emits_two_barriers:
  assumes "top_frame s = Some fr"
  shows "(timing_stack fr = [] \<longrightarrow>
            ModifyASTStmtStagePost offset s = Some (VISIT_END, Error stage_msg s) \<and>
            bb_store (Error stage_msg s) = bb_store s \<and>
            stmt_store (Error stage_msg s) = stmt_store s \<and>
            errors (Error stage_msg s) = errors s @ [stage_msg]) \<and>
         (timing_stack fr \<noteq> [] \<and> timing_last_stage fr \<noteq> [] \<and>
          timevar_store s (last (timing_stack fr)) = Some T \<and>
          CurBB s = Some b \<and> bb_store s b = Some B \<longrightarrow>
            (\<exists>s'. ModifyASTStmtStagePost offset s = Some (VISIT_CONTINUE, s') \<and>
                  bb_store s' b =
                    Some (B\<lparr>stmts := stmts B @ [stmt_alloc s, stmt_alloc s + 1]\<rparr>) \<and>
                  (\<forall>b'. b' \<noteq> b \<longrightarrow> bb_store s' b' = bb_store s b') \<and>
                  stmt_store s' (stmt_alloc s) =
                    Some (timing_barrier_stmt (next_valnum s) (last (timing_stack fr))
                            (last (timing_last_stage fr))) \<and>
                  stmt_store s' (stmt_alloc s + 1) =
                    Some (timing_barrier_stmt (next_valnum s + 1) (last (timing_stack fr))
                            offset) \<and>
                  (\<forall>a. a \<noteq> stmt_alloc s \<and> a \<noteq> stmt_alloc s + 1 \<longrightarrow>
                         stmt_store s' a = stmt_store s a) \<and>
                  top_frame s' =
                    Some (fr\<lparr>timing_last_stage := butlast (timing_last_stage fr) @ [offset]\<rparr>)))"
proof (intro conjI impI)
  assume "timing_stack fr = []"
  then show "ModifyASTStmtStagePost offset s = Some (VISIT_END, Error stage_msg s)"
    using assms by (simp add: ModifyASTStmtStagePost_def)
next
  show "bb_store (Error stage_msg s) = bb_store s" by (simp add: Error_def)
  show "stmt_store (Error stage_msg s) = stmt_store s" by (simp add: Error_def)
  show "errors (Error stage_msg s) = errors s @ [stage_msg]" by (simp add: Error_def)
next
  assume h: "timing_stack fr \<noteq> [] \<and> timing_last_stage fr \<noteq> [] \<and>
          timevar_store s (last (timing_stack fr)) = Some T \<and>
          CurBB s = Some b \<and> bb_store s b = Some B"
  have ne: "c_frames s \<noteq> []" using assms by (auto simp: top_frame_def split: list.splits)
  show "\<exists>s'. ModifyASTStmtStagePost offset s = Some (VISIT_CONTINUE, s') \<and>
                  bb_store s' b =
                    Some (B\<lparr>stmts := stmts B @ [stmt_alloc s, stmt_alloc s + 1]\<rparr>) \<and>
                  (\<forall>b'. b' \<noteq> b \<longrightarrow> bb_store s' b' = bb_store s b') \<and>
                  stmt_store s' (stmt_alloc s) =
                    Some (timing_barrier_stmt (next_valnum s) (last (timing_stack fr))
                            (last (timing_last_stage fr))) \<and>
                  stmt_store s' (stmt_alloc s + 1) =
                    Some (timing_barrier_stmt (next_valnum s + 1) (last (timing_stack fr))
                            offset) \<and>
                  (\<forall>a. a \<noteq> stmt_alloc s \<and> a \<noteq> stmt_alloc s + 1 \<longrightarrow>
                         stmt_store s' a = stmt_store s a) \<and>
                  top_frame s' =
                    Some (fr\<lparr>timing_last_stage := butlast (timing_last_stage fr) @ [offset]\<rparr>)"
    using assms h ne
    by (simp add: ModifyASTStmtStagePost_def Valnum_def add_use_def CurBB_def AddIRStmt_def
        Let_def set_top_frame_def top_frame_def timing_barrier_stmt_def split: list.splits)
qed

lemma wit_in_f_eq:
  "wit_in_f = wit_ctx\<lparr>gensym := 2, bb_store := (bb_store wit_ctx)(0 \<mapsto> \<lparr>label = ''f'', is_entry = True, stmts = []\<rparr>),
       bb_alloc := 1, bbs := [0], entries := [0], curbb := Some 0\<rparr>"
  by (simp add: wit_in_f_def wit_ctx_def wit_fd_entry_def ModifyASTFunctionDefPre_def AddBB_def
      GenSym_def Let_def set_bb_def AddEntry_def SetCurBB_def new_IRBB_def CodeGenContext_def)

theorem function_def_lowering_witness:
  "\<not> fd_is_entry wit_fd_plain \<and>
   ModifyASTFunctionDef (\<lambda>_ _. None) wit_fd_plain wit_ctx = Some (True, wit_ctx) \<and>
   fd_is_entry wit_fd_entry \<and> fd_block wit_fd_entry = [] \<and>
   (\<exists>s3. ModifyASTFunctionDef (\<lambda>_ _. None) wit_fd_entry wit_ctx = Some (True, s3) \<and>
         bbs s3 = [0] \<and> map_option label (bb_store s3 0) = Some ''f'' \<and>
         bb_stmts s3 0 = [new_IRStmt\<lparr>valnum := 1, type := IRStmtDone\<rparr>]) \<and>
   CurBB wit_in_f = Some 0 \<and>
   bb_store wit_in_f 0 = Some \<lparr>label = ''f'', is_entry = True, stmts = []\<rparr> \<and>
   (\<exists>s2. ModifyASTFunctionDefPost wit_fd_entry wit_in_f = Some (VISIT_CONTINUE, s2) \<and>
         bb_store s2 0 = Some \<lparr>label = ''f'', is_entry = True, stmts = [0]\<rparr> \<and>
         stmt_store s2 0 = Some (new_IRStmt\<lparr>valnum := 1, type := IRStmtDone\<rparr>))"
proof -
  have e: "fd_is_entry wit_fd_entry" "fd_block wit_fd_entry = []" "fd_name wit_fd_entry = ''f''"
    and p: "\<not> fd_is_entry wit_fd_plain"
    by (simp_all add: wit_fd_entry_def wit_fd_plain_def)
  have c: "bbs wit_ctx = []" "bb_alloc wit_ctx = 0" "next_valnum wit_ctx = 1" "entries wit_ctx = []"
    by (simp_all add: wit_ctx_def CodeGenContext_def)
  have f: "CurBB wit_in_f = Some 0"
    "bb_store wit_in_f 0 = Some \<lparr>label = ''f'', is_entry = True, stmts = []\<rparr>"
    "stmt_alloc wit_in_f = 0" "next_valnum wit_in_f = 1"
    by (simp_all add: wit_in_f_eq CurBB_def wit_ctx_def CodeGenContext_def)
  show ?thesis
    using function_def_lowering[of wit_fd_plain "\<lambda>_ _. None" wit_ctx]
      function_def_lowering[of wit_fd_entry "\<lambda>_ _. None" wit_ctx]
      function_def_lowering[of wit_fd_entry "\<lambda>_ _. None" wit_in_f 0
        "\<lparr>label = ''f'', is_entry = True, stmts = []\<rparr>"]
    by (simp add: e p c f) blast
qed

lemma wit_in_timing_facts:
  "top_frame wit_in_timing = Some (new_FuncFrame\<lparr>timing_stack := [0], timing_last_stage := [0]\<rparr>)"
  "timevar_store wit_in_timing 0 = Some \<lparr>tv_name = fst (GenSym (Some ''timing'') wit_in_f), uses = [0]\<rparr>"
  "CurBB wit_in_timing = Some 0"
  "bb_store wit_in_timing 0 = Some \<lparr>label = ''f'', is_entry = True, stmts = [0]\<rparr>"
  "stmt_alloc wit_in_timing = 1"
  "next_valnum wit_in_timing = 2"
  by (simp_all add: wit_in_timing_def wit_in_f_eq wit_ctx_def CodeGenContext_def
      ModifyASTStmtTimingPre_def GenSym_def Let_def top_frame_def set_top_frame_def Valnum_def
      add_use_def AddIRStmt_def CurBB_def new_FuncFrame_def)

theorem stage_emits_two_barriers_witness:
  "top_frame wit_in_f = Some new_FuncFrame \<and> timing_stack new_FuncFrame = [] \<and>
   ModifyASTStmtStagePost 3 wit_in_f = Some (VISIT_END, Error stage_msg wit_in_f) \<and>
   errors (Error stage_msg wit_in_f) = [stage_msg] \<and>
   (\<exists>s'. ModifyASTStmtStagePost 3 wit_in_timing = Some (VISIT_CONTINUE, s') \<and>
         bb_store s' 0 = Some \<lparr>label = ''f'', is_entry = True, stmts = [0, 1, 2]\<rparr> \<and>
         stmt_store s' 1 = Some (timing_barrier_stmt 2 0 0) \<and>
         stmt_store s' 2 = Some (timing_barrier_stmt 3 0 3) \<and>
         top_frame s' = Some (new_FuncFrame\<lparr>timing_stack := [0], timing_last_stage := [3]\<rparr>))"
proof -
  have f: "top_frame wit_in_f = Some new_FuncFrame" "timing_stack new_FuncFrame = []"
    "errors wit_in_f = []"
    by (simp_all add: wit_in_f_eq wit_ctx_def CodeGenContext_def top_frame_def new_FuncFrame_def)
  let ?fr = "new_FuncFrame\<lparr>timing_stack := [0], timing_last_stage := [0]\<rparr>"
  let ?B = "\<lparr>label = ''f'', is_entry = True, stmts = [0]\<rparr>"
  note t = wit_in_timing_facts
  have 1: "ModifyASTStmtStagePost 3 wit_in_f = Some (VISIT_END, Error stage_msg wit_in_f)"
    using stage_emits_two_barriers[OF f(1), of 3] f(2) by blast
  have 2: "errors (Error stage_msg wit_in_f) = [stage_msg]"
    using stage_emits_two_barriers[OF f(1), of 3] f(2) f(3) by simp
  have pre: "timing_stack ?fr \<noteq> [] \<and> timing_last_stage ?fr \<noteq> [] \<and>
      timevar_store wit_in_timing (last (timing_stack ?fr)) =
        Some \<lparr>tv_name = fst (GenSym (Some ''timing'') wit_in_f), uses = [0]\<rparr> \<and>
      CurBB wit_in_timing = Some 0 \<and> bb_store wit_in_timing 0 = Some ?B"
    by (simp add: t)
  from stage_emits_two_barriers[OF t(1), where offset = 3 and b = 0 and B = ?B, THEN conjunct2,
      rule_format, OF pre]
  obtain s' where s': "ModifyASTStmtStagePost 3 wit_in_timing = Some (VISIT_CONTINUE, s')"
    "bb_store s' 0 = Some (?B\<lparr>stmts := stmts ?B @ [stmt_alloc wit_in_timing, stmt_alloc wit_in_timing + 1]\<rparr>)"
    "stmt_store s' (stmt_alloc wit_in_timing) =
       Some (timing_barrier_stmt (next_valnum wit_in_timing) (last (timing_stack ?fr))
               (last (timing_last_stage ?fr)))"
    "stmt_store s' (stmt_alloc wit_in_timing + 1) =
       Some (timing_barrier_stmt (next_valnum wit_in_timing + 1) (last (timing_stack ?fr)) 3)"
    "top_frame s' = Some (?fr\<lparr>timing_last_stage := butlast (timing_last_stage ?fr) @ [3]\<rparr>)"
    by blast
  have 3: "bb_store s' 0 = Some \<lparr>label = ''f'', is_entry = True, stmts = [0, 1, 2]\<rparr>"
    using s'(2) by (simp add: t)
  have 4: "stmt_store s' 1 = Some (timing_barrier_stmt 2 0 0)"
    using s'(3) by (simp add: t)
  have 5: "stmt_store s' 2 = Some (timing_barrier_stmt 3 0 3)"
    using s'(4) by (simp add: t numeral_2_eq_2)
  have 6: "top_frame s' = Some (new_FuncFrame\<lparr>timing_stack := [0], timing_last_stage := [3]\<rparr>)"
    using s'(5) by (simp add: new_FuncFrame_def)
  show ?thesis using f(1) f(2) 1 2 s'(1) 3 4 5 6 by blast
qed

lemma wit_lowered_const_facts:
  "GetIRStmt (Some wit_const) wit_lowered_const = Some 0"
  "GetIRStmt (Some wit_cmp) wit_lowered_const = Some 0"
  "stmt_store wit_lowered_const 0 = Some wit_const_stmt"
  "CurBB wit_lowered_const = Some 0"
  "bb_store wit_lowered_const 0 = Some \<lparr>label = ''f'', is_entry = True, stmts = [0]\<rparr>"
  "stmt_alloc wit_lowered_const = 1"
  "next_valnum wit_lowered_const = 2"
  by (simp_all add: wit_lowered_const_def wit_in_f_eq wit_ctx_def CodeGenContext_def
      AddIRStmt_def AddIRStmt_expr_def Valnum_def Let_def GetIRStmt_def wit_const_def
      wit_cmp_def CurBB_def wit_const_stmt_def)

theorem kill_if_lowered_iff_no_side_effects_witness:
  "GetIRStmt (Some wit_const) wit_lowered_const = Some 0 \<and>
   GetIRStmt (Some wit_cmp) wit_lowered_const = Some 0 \<and>
   stmt_store wit_lowered_const 0 = Some wit_const_stmt \<and>
   CurBB wit_lowered_const = Some 0 \<and>
   bb_store wit_lowered_const 0 = Some \<lparr>label = ''f'', is_entry = True, stmts = [0]\<rparr> \<and>
   map e_op (subexprs wit_const) = [CONST_E] \<and>
   (\<exists>s'. ModifyASTStmtKillIfPost wit_const wit_lowered_const = Some (VISIT_CONTINUE, s') \<and>
         bb_store s' 0 = Some \<lparr>label = ''f'', is_entry = True, stmts = [0, 1]\<rparr> \<and>
         stmt_store s' 1 = Some (new_IRStmt\<lparr>valnum := 2, type := IRStmtKillIf,
                                              args := [0], arg_nums := [1]\<rparr>)) \<and>
   map e_op (subexprs wit_cmp) = [EQ, ARRAY_REF, VAR, CONST_E, CONST_E] \<and>
   ModifyASTStmtKillIfPost wit_cmp wit_lowered_const =
     Some (VISIT_END, Error side_effect_msg wit_lowered_const)"
proof -
  have clean: "\<forall>n \<in> set (subexprs wit_const). e_op n \<noteq> STMTBLOCK \<and> e_op n \<noteq> ARRAY_REF"
    by (simp add: wit_const_def)
  have dirty: "\<exists>n \<in> set (subexprs wit_cmp). e_op n = STMTBLOCK \<or> e_op n = ARRAY_REF"
    by (simp add: wit_cmp_def wit_array_ref_def wit_const_def)
  note f = wit_lowered_const_facts
  show ?thesis
    using kill_if_lowered_iff_no_side_effects[OF f(1) f(3) f(4) f(5)]
      kill_if_lowered_iff_no_side_effects[OF f(2) f(3) f(4) f(5)]
      clean dirty
    by (simp add: f wit_const_stmt_def) (simp add: wit_cmp_def wit_array_ref_def wit_const_def)
qed

section \<open>Proofs: port misuse, the parser of type definitions\<close>

lemma FindEntityDef_here:
  "e_op node = def_type \<Longrightarrow> FindEntityDef node def_type s = Some (Some node, s)"
  by (subst FindEntityDef.simps) simp

text \<open>
  Claim C3, evaluated on the code. A write to, and a read from, a port definition
  whose inferred type is neither a port nor a chan: the hook reports the error, then
  goes on, appends the statement to the current BB and answers \<open>VISIT_CONTINUE\<close>.
  The claim says that lowering stops with \<open>VISIT_END\<close> and that no statement is
  emitted after the error.
\<close>

theorem port_misuse_error_does_not_stop:
  assumes "e_op port = PORTDEF"
      and "\<not> is_port (inferred_type port)" and "\<not> is_chan (inferred_type port)"
      and "node_ident s port = Some nm"
      and "CurBB s = Some b" and "bb_store s b = Some B"
  shows "(GetIRStmt (Some rhs) s = Some v \<and> stmt_store s v = Some vst \<longrightarrow>
           (\<exists>s'. ModifyASTStmtWritePost port rhs s = Some (VISIT_CONTINUE, s') \<and>
                 errors s' = errors s @ [write_msg] \<and>
                 bb_store s' b = Some (B\<lparr>stmts := stmts B @ [stmt_alloc s]\<rparr>) \<and>
                 map_option port_name (stmt_store s' (stmt_alloc s)) = Some nm \<and>
                 map_option valnum (stmt_store s' (stmt_alloc s)) = Some (next_valnum s))) \<and>
         (e_op node = PORTREAD \<and> ops node = port # rest \<longrightarrow>
           (\<exists>s'. ModifyASTExprPost node s = Some (VISIT_CONTINUE, s') \<and>
                 errors s' = errors s @ [read_msg] \<and>
                 bb_store s' b = Some (B\<lparr>stmts := stmts B @ [stmt_alloc s]\<rparr>) \<and>
                 map_option port_name (stmt_store s' (stmt_alloc s)) = Some nm \<and>
                 map_option valnum (stmt_store s' (stmt_alloc s)) = Some (next_valnum s) \<and>
                 expr_to_ir_map s' (eid node) = Some (stmt_alloc s)))"
proof (intro conjI impI)
  assume r: "GetIRStmt (Some rhs) s = Some v \<and> stmt_store s v = Some vst"
  have f: "FindEntityDef port PORTDEF (snd (Valnum s)) = Some (Some port, snd (Valnum s))"
    using assms(1) by (rule FindEntityDef_here)
  show "\<exists>s'. ModifyASTStmtWritePost port rhs s = Some (VISIT_CONTINUE, s') \<and>
                 errors s' = errors s @ [write_msg] \<and>
                 bb_store s' b = Some (B\<lparr>stmts := stmts B @ [stmt_alloc s]\<rparr>) \<and>
                 map_option port_name (stmt_store s' (stmt_alloc s)) = Some nm \<and>
                 map_option valnum (stmt_store s' (stmt_alloc s)) = Some (next_valnum s)"
    using assms r f
    by (simp add: ModifyASTStmtWritePost_def Valnum_def Error_def node_ident_def GetIRStmt_def
        CurBB_def AddIRStmt_def Let_def)
next
  assume r: "e_op node = PORTREAD \<and> ops node = port # rest"
  have f: "FindEntityDef port PORTDEF s = Some (Some port, s)"
    using assms(1) by (rule FindEntityDef_here)
  show "\<exists>s'. ModifyASTExprPost node s = Some (VISIT_CONTINUE, s') \<and>
                 errors s' = errors s @ [read_msg] \<and>
                 bb_store s' b = Some (B\<lparr>stmts := stmts B @ [stmt_alloc s]\<rparr>) \<and>
                 map_option port_name (stmt_store s' (stmt_alloc s)) = Some nm \<and>
                 map_option valnum (stmt_store s' (stmt_alloc s)) = Some (next_valnum s) \<and>
                 expr_to_ir_map s' (eid node) = Some (stmt_alloc s)"
    using assms r f
    by (simp add: ModifyASTExprPost_def Valnum_def Error_def node_ident_def
        CurBB_def AddIRStmt_def Let_def)
qed

theorem port_misuse_error_does_not_stop_witness:
  "(\<exists>s'. ModifyASTStmtWritePost wit_bad_port wit_const wit_lowered_const
            = Some (VISIT_CONTINUE, s') \<and>
         errors s' = [write_msg] \<and>
         bb_store s' 0 = Some \<lparr>label = ''f'', is_entry = True, stmts = [0, 1]\<rparr> \<and>
         map_option port_name (stmt_store s' 1) = Some ''p'' \<and>
         map_option valnum (stmt_store s' 1) = Some 2) \<and>
   (\<exists>s'. ModifyASTExprPost wit_bad_read wit_lowered_const = Some (VISIT_CONTINUE, s') \<and>
         errors s' = [read_msg] \<and>
         bb_store s' 0 = Some \<lparr>label = ''f'', is_entry = True, stmts = [0, 1]\<rparr> \<and>
         map_option port_name (stmt_store s' 1) = Some ''p'' \<and>
         map_option valnum (stmt_store s' 1) = Some 2 \<and>
         expr_to_ir_map s' (SrcExpr 6) = Some 1)"
proof -
  let ?B = "\<lparr>label = ''f'', is_entry = True, stmts = [0]\<rparr>"
  have p: "e_op wit_bad_port = PORTDEF" "\<not> is_port (inferred_type wit_bad_port)"
    "\<not> is_chan (inferred_type wit_bad_port)"
    by (simp_all add: wit_bad_port_def wit_ty_def)
  have n: "node_ident wit_lowered_const wit_bad_port = Some ''p''"
    by (simp add: node_ident_def wit_bad_port_def wit_lowered_const_def wit_in_f_def
        wit_ctx_def CodeGenContext_def wit_fd_entry_def ModifyASTFunctionDefPre_def AddBB_def
        GenSym_def Let_def set_bb_def AddEntry_def SetCurBB_def new_IRBB_def
        AddIRStmt_def AddIRStmt_expr_def Valnum_def wit_const_stmt_def)
  have c: "CurBB wit_lowered_const = Some 0" "bb_store wit_lowered_const 0 = Some ?B"
    "GetIRStmt (Some wit_const) wit_lowered_const = Some 0 \<and>
     stmt_store wit_lowered_const 0 = Some wit_const_stmt"
    "stmt_alloc wit_lowered_const = 1" "next_valnum wit_lowered_const = 2"
    "errors wit_lowered_const = []"
    by (simp_all add: wit_lowered_const_def wit_in_f_def
        wit_ctx_def CodeGenContext_def wit_fd_entry_def ModifyASTFunctionDefPre_def AddBB_def
        GenSym_def Let_def set_bb_def AddEntry_def SetCurBB_def new_IRBB_def CurBB_def
        AddIRStmt_def AddIRStmt_expr_def Valnum_def GetIRStmt_def wit_const_def wit_const_stmt_def)
  have r: "e_op wit_bad_read = PORTREAD \<and> ops wit_bad_read = wit_bad_port # []"
    "eid wit_bad_read = SrcExpr 6"
    by (simp_all add: wit_bad_read_def)
  note t = port_misuse_error_does_not_stop[OF p n c(1) c(2)]
  from t[THEN conjunct1, rule_format, OF c(3)] t[THEN conjunct2, rule_format, OF r(1)]
  show ?thesis by (simp add: c r)
qed

text \<open>
  Claim C10. \<open>ParseTypeDef\<close> ends in a null dereference exactly on the token streams
  that begin with an identifier and an opening brace and whose next token is not a
  closing brace: whenever the body of the type definition has a field, the field
  reference is used before a field object is allocated.
\<close>

theorem ParseTypeDef_dereferences_null_field:
  "ParseTypeDef (Some d) p = Inl NullDeref \<longleftrightarrow>
     tok_type (CurToken p) = IDENT \<and>
     tok_type (CurToken (Consume0 p)) = LBRACE \<and>
     tok_type (CurToken (Consume0 (Consume0 p))) \<noteq> RBRACE"
  by (auto simp: ParseTypeDef_def ParseIdent_def Expect_def Consume_def TryConsume_def
      ParseTypeDef_fields.simps Let_def Consume0_def CurToken_def
      split: prod.splits bool.splits sum.splits list.splits if_splits)

theorem ParseTypeDef_dereferences_null_field_witness:
  "tok_type (CurToken \<lparr>toks = wit_typedef_toks, parse_errors = []\<rparr>) = IDENT \<and>
   tok_type (CurToken (Consume0 \<lparr>toks = wit_typedef_toks, parse_errors = []\<rparr>)) = LBRACE \<and>
   tok_type (CurToken (Consume0 (Consume0 \<lparr>toks = wit_typedef_toks, parse_errors = []\<rparr>))) = IDENT \<and>
   ParseTypeDef (Some new_ASTTypeDef) \<lparr>toks = wit_typedef_toks, parse_errors = []\<rparr> = Inl NullDeref"
  using ParseTypeDef_dereferences_null_field
          [of new_ASTTypeDef "\<lparr>toks = wit_typedef_toks, parse_errors = []\<rparr>"]
  by (simp add: wit_typedef_toks_def CurToken_def Consume0_def)

section \<open>Proofs: removal of unreachable BBs\<close>

lemma MarkSuccs_fuel:
  "MarkSuccs n s r b = Some x \<Longrightarrow> MarkSuccs (n + k) s r b = Some x"
  "MarkSuccs_loop n s r bs = Some x \<Longrightarrow> MarkSuccs_loop (n + k) s r bs = Some x"
proof (induction n s r b and n s r bs arbitrary: x and x rule: MarkSuccs_MarkSuccs_loop.induct)
  case (1 s bb_set root)
  then show ?case by simp
next
  case (2 n s bb_set root)
  then show ?case by (auto simp: bind_eq_Some_conv split: if_splits)
next
  case (3 n s bb_set)
  then show ?case by simp
next
  case (4 n s bb_set bb rest)
  then show ?case by (auto simp: bind_eq_Some_conv)
qed

lemma mark_spawns_fuel:
  "mark_spawns n s as r = Some x \<Longrightarrow> mark_spawns (n + k) s as r = Some x"
proof (induction as arbitrary: r)
  case Nil
  then show ?case by simp
next
  case (Cons a as)
  from Cons.prems obtain st r1 where st: "stmt_store s a = Some st"
    and r1: "(if type st = IRStmtSpawn
              then (case targets st of [] \<Rightarrow> None | t # _ \<Rightarrow> MarkSuccs n s r t)
              else Some r) = Some r1"
    and rest: "mark_spawns n s as r1 = Some x"
    by (auto simp: bind_eq_Some_conv)
  have "(if type st = IRStmtSpawn
         then (case targets st of [] \<Rightarrow> None | t # _ \<Rightarrow> MarkSuccs (n + k) s r t)
         else Some r) = Some r1"
    using r1 by (auto split: if_splits list.splits intro: MarkSuccs_fuel)
  then show ?case using st Cons.IH[OF rest] by simp
qed

lemma mark_roots_fuel:
  "mark_roots n s bs r = Some x \<Longrightarrow> mark_roots (n + k) s bs r = Some x"
proof (induction bs arbitrary: r)
  case Nil
  then show ?case by simp
next
  case (Cons b bs)
  from Cons.prems obtain B r1 r2 where B: "bb_store s b = Some B"
    and r1: "(if is_entry B then MarkSuccs n s r b else Some r) = Some r1"
    and r2: "mark_spawns n s (stmts B) r1 = Some r2"
    and rest: "mark_roots n s bs r2 = Some x"
    by (auto simp: bind_eq_Some_conv)
  have "(if is_entry B then MarkSuccs (n + k) s r b else Some r) = Some r1"
    using r1 by (auto split: if_splits intro: MarkSuccs_fuel)
  then show ?case using B mark_spawns_fuel[OF r2] Cons.IH[OF rest] by simp
qed

lemma RemoveUnreachableBBsAndPhis_fuel:
  "RemoveUnreachableBBsAndPhis n s = Some s' \<Longrightarrow> RemoveUnreachableBBsAndPhis (n + k) s = Some s'"
  unfolding RemoveUnreachableBBsAndPhis_def
  by (auto simp: bind_eq_Some_conv dest: mark_roots_fuel[where k = k])

lemma wit_unreach_run1:
  "map_option (\<lambda>s. (bbs s, stmt_store s 2)) (RemoveUnreachableBBsAndPhis 5 wit_unreach)
     = Some ([0, 1, 3], Some wit_phi)"
  by code_simp

lemma wit_unreach_run2:
  "map_option (\<lambda>s. (bbs s, stmt_store s 2))
     (RemoveUnreachableBBsAndPhis 5 wit_unreach \<bind> RemoveUnreachableBBsAndPhis 5)
     = Some ([0, 1], Some (wit_phi\<lparr>args := [0], arg_nums := [1], targets := [0],
                                    target_names := [''f'']\<rparr>))"
  by code_simp

text \<open>
  Claim C8, evaluated on the code. On \<open>wit_unreach\<close> the first run keeps the spawned
  BB \<open>3\<close>, because the spawn statement of the dead BB \<open>2\<close> makes it a root, and
  removes BB \<open>2\<close>. The second run no longer finds that spawn statement: it removes
  BB \<open>3\<close> and the phi input that came from it. The claim says that the second run
  changes nothing. The result does not depend on the fuel.
\<close>

theorem unreachable_removal_not_idempotent:
  "\<exists>s1 s2. (\<forall>k. RemoveUnreachableBBsAndPhis (5 + k) wit_unreach = Some s1) \<and>
           (\<forall>k. RemoveUnreachableBBsAndPhis (5 + k) s1 = Some s2) \<and>
           bbs s1 = [0, 1, 3] \<and> bbs s2 = [0, 1] \<and>
           stmt_store s1 2 = Some wit_phi \<and>
           stmt_store s2 2 = Some (wit_phi\<lparr>args := [0], arg_nums := [1], targets := [0],
                                           target_names := [''f'']\<rparr>)"
proof -
  from wit_unreach_run1 obtain s1 where
    r1: "RemoveUnreachableBBsAndPhis 5 wit_unreach = Some s1"
    and b1: "bbs s1 = [0, 1, 3]" and p1: "stmt_store s1 2 = Some wit_phi"
    by auto
  from wit_unreach_run2 r1 obtain s2 where
    r2: "RemoveUnreachableBBsAndPhis 5 s1 = Some s2"
    and b2: "bbs s2 = [0, 1]"
    and p2: "stmt_store s2 2 = Some (wit_phi\<lparr>args := [0], arg_nums := [1], targets := [0],
                                             target_names := [''f'']\<rparr>)"
    by auto
  have "\<forall>k. RemoveUnreachableBBsAndPhis (5 + k) wit_unreach = Some s1"
    using RemoveUnreachableBBsAndPhis_fuel[OF r1] by simp
  moreover have "\<forall>k. RemoveUnreachableBBsAndPhis (5 + k) s1 = Some s2"
    using RemoveUnreachableBBsAndPhis_fuel[OF r2] by simp
  ultimately show ?thesis using b1 b2 p1 p2 by blast
qed

section \<open>Proofs: kill-younger and the pending blocks\<close>








section \<open>The phis of an if/else merge\<close>



lemma GetIRStmt_other_expr:
  assumes "contributor_ok u eo"
  shows "GetIRStmt eo (u1\<lparr>expr_to_ir_map := (expr_to_ir_map u)(IRExpr (ir_exprs u) \<mapsto> x)\<rparr>)
         = GetIRStmt eo u"
  using assms by (cases eo) (auto simp: GetIRStmt_def contributor_ok_def split: expr_id.splits)



lemma set_set_insert [simp]: "set (set_insert k xs) = insert k (set xs)"
  by (induction xs) auto


lemma set_fold_set_insert [simp]: "set (fold set_insert ks acc) = set ks \<union> set acc"
  by (induction ks arbitrary: acc) auto















section \<open>The header phis of a while loop\<close>












































end
